theory Spec2Isabelle
  imports Complex_Main "HOL-Library.Sublist"
begin

section \<open>Python values shared by the two modules\<close>

text \<open>
  A Python \<^verbatim>\<open>str\<close> is the list of its code points, a \<open>str\<close>: its length is the
  number of its characters, as \<^verbatim>\<open>len\<close> counts them, and \<open>ascii\<close> gives the \<open>str\<close> of
  a text written in ASCII. This is the type of every text that the code measures, splits,
  strips or formats (\<^verbatim>\<open>query_medgemma\<close>, \<^verbatim>\<open>locate_therapist_tool\<close>). The keys of dicts,
  the names of exception classes and the texts that \<^verbatim>\<open>parse_response\<close> and
  \<^verbatim>\<open>call_emergency\<close> only test for emptiness or hand on are \<^typ>\<open>string\<close>s (such a text may be read as
  its UTF-8 bytes, which are none exactly when the text is empty).
  An attribute or field of a message that holds either \<^verbatim>\<open>None\<close> or a text is a \<open>pyval\<close>.
  An exception is a value of \<open>exn\<close>, tagged with the name of its class; all of them are
  instances of \<^verbatim>\<open>Exception\<close>, the class every handler of the source names.
  A computation that may raise returns \<open>exn + 'a\<close>, with \<open>Inl\<close> the raised exception.
\<close>

type_synonym str = "nat list"

definition ascii :: "string \<Rightarrow> str" where
  "ascii s = map of_char s"

datatype pyval = PyNone | PyStr string

datatype exn = Exception string

fun truthy :: "pyval \<Rightarrow> bool" where
  "truthy PyNone = False"
| "truthy (PyStr s) = (s \<noteq> [])"

text \<open>
  \<^verbatim>\<open>try: body except Exception: handler\<close>: the handler runs exactly when the body raises.
\<close>

definition try_except :: "exn + 'a \<Rightarrow> (exn \<Rightarrow> exn + 'a) \<Rightarrow> exn + 'a" where
  "try_except body handler = (case body of Inl e \<Rightarrow> handler e | Inr v \<Rightarrow> Inr v)"

text \<open>\<^verbatim>\<open>d.get(k)\<close> and \<^verbatim>\<open>d.get(k, default)\<close> on a dict given as an association list.\<close>

definition get_default :: "('k \<times> 'v) list \<Rightarrow> 'k \<Rightarrow> 'v \<Rightarrow> 'v" where
  "get_default d k dflt = (case map_of d k of None \<Rightarrow> dflt | Some v \<Rightarrow> v)"

section \<open>ai\_agent.py: parse\_response\<close>

text \<open>
  A message object of the agent stream. \<open>name\<close> is \<open>None\<close> when the object has no
  attribute \<^verbatim>\<open>name\<close> (then \<^verbatim>\<open>getattr(msg, 'name', 'None')\<close> yields the default), and
  \<open>Some v\<close> when it has one, which may itself hold \<^verbatim>\<open>None\<close>.
\<close>

record message =
  name :: "pyval option"
  content :: pyval

text \<open>
  The value found under the key \<^verbatim>\<open>'messages'\<close>: \<^verbatim>\<open>None\<close>, a list of messages, or a
  value of another type, of which only the truthiness matters.
\<close>

datatype field = FNone | FList "message list" | FOther bool

text \<open>
  A step of the stream is a dict from node names to node updates; a node update is a dict
  that may hold the key \<^verbatim>\<open>'messages'\<close>. Both are association lists, read with
  \<^const>\<open>map_of\<close>; a dict is truthy when it is not empty.
\<close>

type_synonym node = "(string \<times> field) list"

type_synonym step = "(string \<times> node) list"

text \<open>\<^verbatim>\<open>getattr(msg, 'name', 'None')\<close>\<close>

definition getattr_name :: "message \<Rightarrow> pyval" where
  "getattr_name msg = (case name msg of None \<Rightarrow> PyStr ''None'' | Some v \<Rightarrow> v)"

text \<open>
  The messages the inner \<^verbatim>\<open>for\<close> loops run over: those of the node \<open>key\<close> of the step
  when the node is present and truthy and its \<^verbatim>\<open>'messages'\<close> is a non-empty list,
  none otherwise.
\<close>

definition messages_of :: "string \<Rightarrow> step \<Rightarrow> message list" where
  "messages_of key s =
     (case map_of s key of
        None \<Rightarrow> []
      | Some data \<Rightarrow>
          if data \<noteq> [] then
            (case map_of data ''messages'' of
               Some (FList msgs) \<Rightarrow> if msgs \<noteq> [] then msgs else []
             | _ \<Rightarrow> [])
          else [])"

text \<open>\<^verbatim>\<open>for msg in tool_messages: tool_called_name = getattr(msg, 'name', 'None')\<close>\<close>

fun tool_loop :: "message list \<Rightarrow> pyval \<Rightarrow> pyval" where
  "tool_loop [] tool_called_name = tool_called_name"
| "tool_loop (msg # msgs) tool_called_name = tool_loop msgs (getattr_name msg)"

text \<open>\<^verbatim>\<open>for msg in messages: if msg.content: final_response = msg.content\<close>\<close>

fun agent_loop :: "message list \<Rightarrow> pyval \<Rightarrow> pyval" where
  "agent_loop [] final_response = final_response"
| "agent_loop (msg # msgs) final_response =
     agent_loop msgs (if truthy (content msg) then content msg else final_response)"

text \<open>The body of \<^verbatim>\<open>for s in stream\<close>, on the pair of the two local variables.\<close>

definition parse_step :: "pyval \<times> pyval \<Rightarrow> step \<Rightarrow> pyval \<times> pyval" where
  "parse_step st s =
     (tool_loop (messages_of ''tools'' s) (fst st),
      agent_loop (messages_of ''agent'' s) (snd st))"

fun parse_loop :: "step list \<Rightarrow> pyval \<times> pyval \<Rightarrow> pyval \<times> pyval" where
  "parse_loop [] st = st"
| "parse_loop (s # stream) st = parse_loop stream (parse_step st s)"

definition parse_response :: "step list \<Rightarrow> pyval \<times> pyval" where
  "parse_response stream = parse_loop stream (PyStr ''None'', PyNone)"

subsection \<open>The result as the specification words it\<close>

text \<open>
  All tool names seen, in stream order, and all truthy agent contents seen, in stream
  order; the result takes the last of each, with the sentinel and \<^verbatim>\<open>None\<close> as defaults.
\<close>

definition tool_names_seen :: "step list \<Rightarrow> pyval list" where
  "tool_names_seen stream = map getattr_name (concat (map (messages_of ''tools'') stream))"

definition agent_contents_seen :: "step list \<Rightarrow> pyval list" where
  "agent_contents_seen stream =
     filter truthy (map content (concat (map (messages_of ''agent'') stream)))"

definition last_or :: "'a \<Rightarrow> 'a list \<Rightarrow> 'a" where
  "last_or d xs = (if xs = [] then d else last xs)"

definition last_seen :: "step list \<Rightarrow> pyval \<times> pyval" where
  "last_seen stream =
     (last_or (PyStr ''None'') (tool_names_seen stream),
      last_or PyNone (agent_contents_seen stream))"

text \<open>A step is tool-tagged when it has a truthy node under \<^verbatim>\<open>'tools'\<close>.\<close>

definition tool_tagged :: "step \<Rightarrow> bool" where
  "tool_tagged s = (case map_of s ''tools'' of None \<Rightarrow> False | Some data \<Rightarrow> data \<noteq> [])"

subsection \<open>Example streams\<close>

text \<open>The three-step stream of the specification's example.\<close>

definition example_stream :: "step list" where
  "example_stream =
     [[(''tools'', [(''messages'',
          FList [\<lparr>name = Some (PyStr ''locate_therapist_tool''), content = PyNone\<rparr>])])],
      [(''agent'', [(''messages'',
          FList [\<lparr>name = None, content = PyStr ''Here are some options''\<rparr>])])],
      [(''agent'', [(''messages'',
          FList [\<lparr>name = None, content = PyStr ''Final answer''\<rparr>])])]]"

definition greeting_stream :: "step list" where
  "greeting_stream =
     [[(''agent'', [(''messages'', FList [\<lparr>name = None, content = PyStr ''Hello''\<rparr>])])]]"

text \<open>Two streams with a tool-tagged step: one whose tool message has no attribute
  \<^verbatim>\<open>name\<close>, one where such a message follows a named one.\<close>

definition unnamed_tool_stream :: "step list" where
  "unnamed_tool_stream =
     [[(''tools'', [(''messages'', FList [\<lparr>name = None, content = PyStr ''done''\<rparr>])])]]"

definition renamed_tool_stream :: "step list" where
  "renamed_tool_stream =
     [[(''tools'', [(''messages'',
          FList [\<lparr>name = Some (PyStr ''locate_therapist_tool''), content = PyNone\<rparr>])])],
      [(''tools'', [(''messages'', FList [\<lparr>name = None, content = PyStr ''done''\<rparr>])])]]"

definition empty_content_stream :: "step list" where
  "empty_content_stream =
     [[(''agent'', [(''messages'',
          FList [\<lparr>name = None, content = PyStr []\<rparr>, \<lparr>name = None, content = PyNone\<rparr>])])]]"

section \<open>tools.py: query\_medgemma\<close>

text \<open>
  Sequencing of computations that may raise: the second runs on the value of the first,
  and an exception of the first is the exception of the whole.
\<close>

definition and_then :: "exn + 'a \<Rightarrow> ('a \<Rightarrow> exn + 'b) \<Rightarrow> exn + 'b" where
  "and_then r f = (case r of Inl e \<Rightarrow> Inl e | Inr v \<Rightarrow> f v)"

text \<open>\<^verbatim>\<open>d[k]\<close> on a dict given as an association list: a missing key raises.\<close>

definition subscript :: "('k \<times> 'v) list \<Rightarrow> 'k \<Rightarrow> exn + 'v" where
  "subscript d k = (case map_of d k of None \<Rightarrow> Inl (Exception ''KeyError'') | Some v \<Rightarrow> Inr v)"

text \<open>
  \<^verbatim>\<open>str.isspace\<close> on a code point: the whitespace of Unicode, which \<^verbatim>\<open>str.strip()\<close>
  removes at both ends. Calling \<^verbatim>\<open>.strip()\<close> on \<^verbatim>\<open>None\<close> raises.
\<close>

definition isspace :: "nat \<Rightarrow> bool" where
  "isspace c =
     ((0x09 \<le> c \<and> c \<le> 0x0D) \<or> (0x1C \<le> c \<and> c \<le> 0x20) \<or> c = 0x85 \<or> c = 0xA0
      \<or> c = 0x1680 \<or> (0x2000 \<le> c \<and> c \<le> 0x200A) \<or> c = 0x2028 \<or> c = 0x2029
      \<or> c = 0x202F \<or> c = 0x205F \<or> c = 0x3000)"

definition strip :: "str \<Rightarrow> str" where
  "strip s = rev (dropWhile isspace (rev (dropWhile isspace s)))"

definition str_strip :: "str option \<Rightarrow> exn + str" where
  "str_strip v =
     (case v of None \<Rightarrow> Inl (Exception ''AttributeError'') | Some s \<Rightarrow> Inr (strip s))"

definition newline :: str where
  "newline = [0x0A]"

definition system_prompt :: str where
  \<open>system_prompt =
     concat (map (\<lambda>l. ascii l @ newline)
       [''You are Dr. Emily Hartman, a warm and experienced clinical psychologist. '',
        ''    Respond to patients with:'',
        '''',
        ''    1. Emotional attunement ("I can sense how difficult this must be...")'',
        ''    2. Gentle normalization ("Many people feel this way when...")'',
        ''    3. Practical guidance ("What sometimes helps is...")'',
        ''    4. Strengths-focused support ("I notice how you're...")'',
        '''',
        ''    Key principles:'',
        ''    - Never use brackets or labels'',
        ''    - Blend elements seamlessly'',
        ''    - Vary sentence structure'',
        ''    - Use natural transitions'',
        ''    - Mirror the user's language level'',
        ''    - Always keep the conversation going by asking open ended questions to dive into the root cause of patients problem''])
     @ ascii ''    ''\<close>

text \<open>
  The arguments of \<^verbatim>\<open>ollama.chat\<close>: the model, the list of message dicts and the
  options. The reply is a dict of dicts, read as \<^verbatim>\<open>response['message']['content']\<close>;
  the content is \<^verbatim>\<open>None\<close> or a \<^verbatim>\<open>str\<close>.
\<close>

datatype chat_request =
  ChatRequest (model: str) (messages: "(string \<times> str) list list")
    (options: "(string \<times> rat) list")

type_synonym response = "(string \<times> (string \<times> str option) list) list"

text \<open>
  The module-level name \<^verbatim>\<open>ollama\<close>: \<open>None\<close> when the import failed, otherwise its
  \<^verbatim>\<open>chat\<close> function, which raises or returns a reply.
\<close>

type_synonym ollama = "(chat_request \<Rightarrow> exn + response) option"

definition chat_args :: "str \<Rightarrow> chat_request" where
  "chat_args prompt =
     ChatRequest (ascii ''alibayram/medgemma:4b'')
       [[(''role'', ascii ''system''), (''content'', system_prompt)],
        [(''role'', ascii ''user''), (''content'', prompt)]]
       [(''num_predict'', 350), (''temperature'', 7 / 10), (''top_p'', 9 / 10)]"

definition backend_unavailable :: str where
  "backend_unavailable =
     ascii ''I'm having technical difficulties: language model backend is unavailable right now. Please try again later.''"

definition generation_failed :: str where
  "generation_failed =
     ascii ''I'm having technical difficulties, but I want you to know your feelings matter. Please try again shortly.''"

text \<open>\<^verbatim>\<open>response['message']['content']\<close>\<close>

definition reply_content :: "response \<Rightarrow> exn + str option" where
  "reply_content response =
     and_then (subscript response ''message'') (\<lambda>message. subscript message ''content'')"

text \<open>
  The result, and the list of the calls of \<^verbatim>\<open>ollama.chat\<close> made, in order.
\<close>

definition query_medgemma :: "ollama \<Rightarrow> str \<Rightarrow> (exn + str) \<times> chat_request list" where
  "query_medgemma ollama prompt =
     (case ollama of
        None \<Rightarrow> (Inr backend_unavailable, [])
      | Some chat \<Rightarrow>
          (try_except
             (and_then (chat (chat_args prompt)) (\<lambda>response.
                and_then (reply_content response) str_strip))
             (\<lambda>e. Inr generation_failed),
           [chat_args prompt]))"

section \<open>tools.py: call\_emergency, and its wrapper in ai\_agent.py\<close>

text \<open>
  The four values imported from the configuration module, which is not part of the
  sources at hand: they are parameters.
\<close>

record config =
  TWILIO_ACCOUNT_SID :: string
  TWILIO_AUTH_TOKEN :: string
  TWILIO_FROM_NUMBER :: string
  EMERGENCY_CONTACT :: string

datatype call_request = CallRequest (call_to: string) (call_from: string) (call_url: string)

datatype call = Call (sid: string)

text \<open>
  A client object offers \<^verbatim>\<open>calls.create\<close>, which raises or returns a call record. The
  module-level name \<^verbatim>\<open>Client\<close> is \<open>None\<close> when the import failed, otherwise the
  constructor, which raises or returns a client.
\<close>

datatype client = TwilioClient (calls_create: "call_request \<Rightarrow> exn + call")

type_synonym client_class = "(string \<Rightarrow> string \<Rightarrow> exn + client) option"

text \<open>What a run does besides returning: lines printed, and calls of \<^verbatim>\<open>calls.create\<close>.\<close>

datatype event = Print string | Create call_request

fun is_Create :: "event \<Rightarrow> bool" where
  "is_Create (Create r) = True"
| "is_Create (Print s) = False"

text \<open>The keyword arguments \<^verbatim>\<open>to\<close>, \<^verbatim>\<open>from_\<close> and \<^verbatim>\<open>url\<close> of \<^verbatim>\<open>client.calls.create\<close>.\<close>

definition call_args :: "config \<Rightarrow> call_request" where
  "call_args cfg =
     CallRequest (EMERGENCY_CONTACT cfg) (TWILIO_FROM_NUMBER cfg)
       ''http://demo.twilio.com/docs/voice.xml''"

definition call_emergency :: "config \<Rightarrow> client_class \<Rightarrow> (exn + call option) \<times> event list" where
  "call_emergency cfg Client =
     (case Client of
        None \<Rightarrow>
          (Inr None, [Print ''Warning: Twilio client not available; cannot place emergency call.''])
      | Some new_client \<Rightarrow>
          (case new_client (TWILIO_ACCOUNT_SID cfg) (TWILIO_AUTH_TOKEN cfg) of
             Inl e \<Rightarrow> (Inr None, [Print ''Failed to place emergency call (Twilio error)''])
           | Inr client \<Rightarrow>
               (let request = call_args cfg
                in case calls_create client request of
                     Inl e \<Rightarrow>
                       (Inr None,
                        [Create request, Print ''Failed to place emergency call (Twilio error)''])
                   | Inr call \<Rightarrow> (Inr (Some call), [Create request]))))"

text \<open>
  \<^verbatim>\<open>emergency_call_tool\<close> calls \<^verbatim>\<open>call_emergency()\<close> as a statement and ends without a
  \<^verbatim>\<open>return\<close>: its value is \<^verbatim>\<open>None\<close> unless the call raises.
\<close>

definition emergency_call_tool :: "config \<Rightarrow> client_class \<Rightarrow> (exn + call option) \<times> event list" where
  "emergency_call_tool cfg Client =
     (case call_emergency cfg Client of
        (Inl e, events) \<Rightarrow> (Inl e, events)
      | (Inr call, events) \<Rightarrow> (Inr None, events))"

definition ask_mental_health_specialist :: "ollama \<Rightarrow> str \<Rightarrow> (exn + str) \<times> chat_request list" where
  "ask_mental_health_specialist ollama query = query_medgemma ollama query"

subsection \<open>Example backends and telephony libraries\<close>

text \<open>Three backends: one whose reply is blank, one that answers, one that raises.\<close>

definition blank_ollama :: ollama where
  "blank_ollama = Some (\<lambda>request. Inr [(''message'', [(''content'', Some (ascii ''  ''))])])"

definition answering_ollama :: ollama where
  "answering_ollama =
     Some (\<lambda>request. Inr [(''message'', [(''role'', Some (ascii ''assistant'')),
                                            (''content'', Some (ascii '' I hear you. ''))])])"

definition failing_ollama :: ollama where
  "failing_ollama = Some (\<lambda>request. Inl (Exception ''ConnectionError''))"

text \<open>
  Backends whose reply ends in a character outside ASCII (U+1F605) after a space, has no
  \<^verbatim>\<open>'message'\<close>, and has \<^verbatim>\<open>None\<close> as content.
\<close>

definition smiling_ollama :: ollama where
  "smiling_ollama =
     Some (\<lambda>request. Inr [(''message'', [(''content'', Some (ascii '' I hear you '' @ [0x1F605]))])])"

definition keyless_ollama :: ollama where
  "keyless_ollama = Some (\<lambda>request. Inr [(''done'', [])])"

definition silent_ollama :: ollama where
  "silent_ollama = Some (\<lambda>request. Inr [(''message'', [(''content'', None)])])"

definition example_config :: config where
  "example_config =
     \<lparr>TWILIO_ACCOUNT_SID = ''AC0000'', TWILIO_AUTH_TOKEN = ''secret'',
      TWILIO_FROM_NUMBER = ''+15550100'', EMERGENCY_CONTACT = ''+15550199''\<rparr>"

text \<open>A telephony library that places the call, one whose call creation raises, and one
  whose client cannot be constructed.\<close>

definition working_Client :: client_class where
  "working_Client = Some (\<lambda>sid token. Inr (TwilioClient (\<lambda>request. Inr (Call ''CA0001''))))"

definition failing_Client :: client_class where
  "failing_Client =
     Some (\<lambda>sid token. Inr (TwilioClient (\<lambda>request. Inl (Exception ''TwilioRestException''))))"

definition unauthorised_Client :: client_class where
  "unauthorised_Client = Some (\<lambda>sid token. Inl (Exception ''TwilioException''))"

section \<open>ai\_agent.py: locate\_therapist\_tool\<close>

text \<open>
  One result object of the geocoding service, with the four fields the function reads.
  A field is \<open>None\<close> when its key is missing from the object; the address is a dict from
  field names to texts.
\<close>

record result =
  display_name :: "str option"
  address :: "(string \<times> str) list option"
  lat :: "str option"
  lon :: "str option"

text \<open>
  What \<^verbatim>\<open>requests.get\<close> returns: the status code, and the outcome of \<^verbatim>\<open>response.json()\<close>,
  which raises on a body that is not the list of result objects. The call itself raises
  or returns a response; the URL, the headers and all parameters but \<^verbatim>\<open>q\<close> are fixed,
  so the service is a function of the query text.
\<close>

record http_response =
  status_code :: int
  json :: "exn + result list"

type_synonym requests_get = "str \<Rightarrow> exn + http_response"

text \<open>\<^verbatim>\<open>x.get(key, default)\<close> for a field of a result object.\<close>

definition field_or :: "'a option \<Rightarrow> 'a \<Rightarrow> 'a" where
  "field_or v dflt = (case v of None \<Rightarrow> dflt | Some x \<Rightarrow> x)"

text \<open>\<^verbatim>\<open>s.split(sep)\<close> for a separator of one character; the list is never empty.\<close>

fun str_split :: "nat \<Rightarrow> str \<Rightarrow> str list" where
  "str_split sep [] = [[]]"
| "str_split sep (c # cs) =
     (if c = sep then [] # str_split sep cs
      else (case str_split sep cs of w # ws \<Rightarrow> (c # w) # ws | [] \<Rightarrow> [[c]]))"

text \<open>\<^verbatim>\<open>sep.join(xs)\<close>\<close>

fun join :: "str \<Rightarrow> str list \<Rightarrow> str" where
  "join sep [] = []"
| "join sep [x] = x"
| "join sep (x # y # ys) = x @ sep @ join sep (y # ys)"

text \<open>The code point of the comma.\<close>

definition comma :: nat where
  "comma = of_char (CHR '','')"

text \<open>\<^verbatim>\<open>name = result.get('display_name', '').split(',')[0]\<close>\<close>

definition extract_name :: "result \<Rightarrow> str" where
  "extract_name r = hd (str_split comma (field_or (display_name r) []))"

text \<open>The list \<^verbatim>\<open>address_parts\<close> built from the structured address of a result.\<close>

definition address_parts :: "result \<Rightarrow> str list" where
  "address_parts r =
     (let address_details = field_or (address r) [];
          house_number = get_default address_details ''house_number'' [];
          road = get_default address_details ''road'' [];
          city = get_default address_details ''city''
                   (get_default address_details ''town''
                      (get_default address_details ''village'' []));
          state = get_default address_details ''state'' [];
          postcode = get_default address_details ''postcode'' []
      in (if house_number \<noteq> [] \<and> road \<noteq> [] then [house_number @ ascii '' '' @ road]
          else if road \<noteq> [] then [road] else [])
         @ (if city \<noteq> [] then [city] else [])
         @ (if state \<noteq> [] then [state] else [])
         @ (if postcode \<noteq> [] then [postcode] else []))"

definition full_address :: "result \<Rightarrow> str" where
  "full_address r =
     (if address_parts r \<noteq> [] then join (ascii '', '') (address_parts r)
      else field_or (display_name r) (ascii ''Address not available''))"

text \<open>The symbols outside ASCII of the fixed texts, by their code points.\<close>

definition pin :: str where
  "pin = [0x1F4CD]"

definition telephone :: str where
  "telephone = [0x1F4DE]"

definition world_map :: str where
  "world_map = [0x1F5FA, 0xFE0F]"

definition light_bulb :: str where
  "light_bulb = [0x1F4A1]"

definition bullet :: str where
  "bullet = [0x2022]"

text \<open>The line of coordinates, present when both are truthy.\<close>

definition coordinates_line :: "result \<Rightarrow> str" where
  "coordinates_line r =
     (let lat = field_or (lat r) []; lon = field_or (lon r) []
      in if lat \<noteq> [] \<and> lon \<noteq> []
         then world_map @ ascii '' Coordinates: '' @ lat @ ascii '', '' @ lon @ newline
         else [])"

text \<open>The text \<^verbatim>\<open>entry\<close> appended to \<^verbatim>\<open>all_results\<close>.\<close>

definition entry :: "result \<Rightarrow> str" where
  "entry r =
     ascii ''**'' @ extract_name r @ ascii ''**'' @ newline
     @ pin @ ascii '' Address: '' @ full_address r @ newline
     @ telephone
     @ ascii '' Phone: Contact facility directly or search online directories'' @ newline
     @ coordinates_line r
     @ ascii ''---''"

text \<open>
  \<^verbatim>\<open>for result in results\<close>, on the pair of \<^verbatim>\<open>all_results\<close> and \<^verbatim>\<open>seen_names\<close>; it
  breaks once five entries are held. The length of a name is its number of code points.
\<close>

fun results_loop :: "result list \<Rightarrow> str list \<times> str set \<Rightarrow> str list \<times> str set" where
  "results_loop [] st = st"
| "results_loop (r # rs) (all_results, seen_names) =
     (if extract_name r \<noteq> [] \<and> extract_name r \<notin> seen_names \<and> 3 < length (extract_name r)
      then (if 5 \<le> length (all_results @ [entry r])
            then (all_results @ [entry r], insert (extract_name r) seen_names)
            else results_loop rs (all_results @ [entry r], insert (extract_name r) seen_names))
      else results_loop rs (all_results, seen_names))"

text \<open>
  \<^verbatim>\<open>for query in queries\<close>: a response whose status is not 200 is passed over; an
  exception of \<^verbatim>\<open>requests.get\<close> or of \<^verbatim>\<open>response.json()\<close> leaves the loop.
\<close>

fun queries_loop ::
  "requests_get \<Rightarrow> str list \<Rightarrow> str list \<times> str set \<Rightarrow> exn + str list \<times> str set" where
  "queries_loop get [] st = Inr st"
| "queries_loop get (query # rest) st =
     (case get query of
        Inl e \<Rightarrow> Inl e
      | Inr response \<Rightarrow>
          (if status_code response = 200 then
             (case json response of
                Inl e \<Rightarrow> Inl e
              | Inr results \<Rightarrow>
                  (if 5 \<le> length (fst (results_loop results st))
                   then Inr (results_loop results st)
                   else queries_loop get rest (results_loop results st)))
           else if 5 \<le> length (fst st) then Inr st
           else queries_loop get rest st))"

definition queries :: "str \<Rightarrow> str list" where
  "queries location =
     [ascii ''therapist '' @ location, ascii ''psychologist '' @ location,
      ascii ''mental health clinic '' @ location, ascii ''counseling center '' @ location]"

definition header :: "str \<Rightarrow> str" where
  "header location =
     ascii ''Here are mental health professionals and clinics I found near '' @ location
     @ ascii '':'' @ newline @ newline"

definition footer :: str where
  "footer =
     newline @ newline @ light_bulb
     @ ascii '' **Note**: Phone numbers aren't available through public maps. I recommend:''
     @ newline
     @ bullet @ ascii '' Calling the facility directly using the address'' @ newline
     @ bullet @ ascii '' Searching online directories like Psychology Today or Healthgrades''
     @ newline
     @ bullet @ ascii '' Contacting your local mental health association'' @ newline
     @ bullet @ ascii '' Using Google Maps or Yelp for additional contact information''"

definition no_listings :: "str \<Rightarrow> str" where
  "no_listings location =
     ascii ''I couldn't find specific therapist listings near '' @ location
     @ ascii '' using OpenStreetMap. Please consider searching for local mental health directories or contacting your local health department for professional referrals.''"

definition services_unavailable :: "str \<Rightarrow> str" where
  "services_unavailable location =
     ascii ''I'm having trouble accessing location services right now. For immediate help, please contact your local mental health crisis hotline or search for therapists in ''
     @ location @ ascii '' through online directories.''"

text \<open>The text returned after the loop, from \<^verbatim>\<open>all_results\<close>.\<close>

definition listing :: "str \<Rightarrow> str list \<Rightarrow> str" where
  "listing location all_results =
     (if all_results \<noteq> []
      then header location @ join (newline @ newline) all_results @ footer
      else no_listings location)"

text \<open>The body of the \<^verbatim>\<open>try\<close> statement, and the function with its handler.\<close>

definition locate_body :: "requests_get \<Rightarrow> str \<Rightarrow> exn + str" where
  "locate_body get location =
     and_then (queries_loop get (queries location) ([], {}))
       (\<lambda>st. Inr (listing location (fst st)))"

definition locate_therapist_tool :: "requests_get \<Rightarrow> str \<Rightarrow> exn + str" where
  "locate_therapist_tool get location =
     try_except (locate_body get location) (\<lambda>e. Inr (services_unavailable location))"

text \<open>
  A query yields no usable result when its request returns a response that is passed over
  (status other than 200) or whose results all have names of at most three characters.
\<close>

definition no_usable_results :: "requests_get \<Rightarrow> str \<Rightarrow> bool" where
  "no_usable_results get query =
     (case get query of
        Inl e \<Rightarrow> False
      | Inr response \<Rightarrow>
          if status_code response = 200
          then (case json response of
                  Inl e \<Rightarrow> False
                | Inr results \<Rightarrow> list_all (\<lambda>r. length (extract_name r) \<le> 3) results)
          else True)"

subsection \<open>The results accepted, as records\<close>

text \<open>
  The same two loops, holding the accepted result objects instead of their texts, and
  all result objects the service offers to the four queries, in order.
\<close>

fun accepted_loop :: "result list \<Rightarrow> result list \<times> str set \<Rightarrow> result list \<times> str set" where
  "accepted_loop [] st = st"
| "accepted_loop (r # rs) (acc, seen_names) =
     (if extract_name r \<noteq> [] \<and> extract_name r \<notin> seen_names \<and> 3 < length (extract_name r)
      then (if 5 \<le> length (acc @ [r])
            then (acc @ [r], insert (extract_name r) seen_names)
            else accepted_loop rs (acc @ [r], insert (extract_name r) seen_names))
      else accepted_loop rs (acc, seen_names))"

fun accepted_queries ::
  "requests_get \<Rightarrow> str list \<Rightarrow> result list \<times> str set \<Rightarrow> exn + result list \<times> str set" where
  "accepted_queries get [] st = Inr st"
| "accepted_queries get (query # rest) st =
     (case get query of
        Inl e \<Rightarrow> Inl e
      | Inr response \<Rightarrow>
          (if status_code response = 200 then
             (case json response of
                Inl e \<Rightarrow> Inl e
              | Inr results \<Rightarrow>
                  (if 5 \<le> length (fst (accepted_loop results st))
                   then Inr (accepted_loop results st)
                   else accepted_queries get rest (accepted_loop results st)))
           else if 5 \<le> length (fst st) then Inr st
           else accepted_queries get rest st))"

definition accepted :: "requests_get \<Rightarrow> str \<Rightarrow> exn + result list" where
  "accepted get location =
     and_then (accepted_queries get (queries location) ([], {})) (\<lambda>st. Inr (fst st))"

definition results_of :: "requests_get \<Rightarrow> str \<Rightarrow> result list" where
  "results_of get query =
     (case get query of
        Inl e \<Rightarrow> []
      | Inr response \<Rightarrow>
          if status_code response = 200
          then (case json response of Inl e \<Rightarrow> [] | Inr results \<Rightarrow> results)
          else [])"

definition raw_results :: "requests_get \<Rightarrow> str \<Rightarrow> result list" where
  "raw_results get location = concat (map (results_of get) (queries location))"

text \<open>
  The invariant of the two loops, for the result objects \<open>pre\<close> gone through so far:
  the names seen are those of the accepted results, which are pairwise distinct and longer
  than three characters; every accepted result is the first of \<open>pre\<close> with its name;
  and every name of \<open>pre\<close> longer than three characters has been seen.
\<close>

definition accepted_inv :: "result list \<Rightarrow> result list \<times> str set \<Rightarrow> bool" where
  "accepted_inv pre st =
     (snd st = extract_name ` set (fst st)
      \<and> distinct (map extract_name (fst st))
      \<and> (\<forall>r \<in> set (fst st). 3 < length (extract_name r))
      \<and> (\<forall>r \<in> set (fst st). find (\<lambda>r'. extract_name r' = extract_name r) pre = Some r)
      \<and> (\<forall>r \<in> set pre. 3 < length (extract_name r) \<longrightarrow> extract_name r \<in> snd st))"

subsection \<open>Example results and services\<close>

text \<open>Result objects and services for the examples.\<close>

definition calm_clinic :: result where
  "calm_clinic =
     \<lparr>display_name = Some (ascii ''Calm Clinic, MG Road, Pune''),
      address = Some [(''house_number'', ascii ''12''), (''road'', ascii ''MG Road''),
                      (''city'', ascii ''Pune''), (''state'', ascii ''Maharashtra''),
                      (''postcode'', ascii ''411001'')],
      lat = Some (ascii ''18.52''), lon = Some (ascii ''73.85'')\<rparr>"

definition calm_clinic_again :: result where
  "calm_clinic_again =
     \<lparr>display_name = Some (ascii ''Calm Clinic, Baner, Pune''), address = None,
      lat = None, lon = None\<rparr>"

definition short_name :: result where
  "short_name =
     \<lparr>display_name = Some (ascii ''Dr, Pune''), address = None, lat = None, lon = None\<rparr>"

text \<open>
  A result whose name has three characters outside ASCII (U+5FC3, U+7642, U+6240), nine
  bytes in UTF-8, followed by a comma and more text.
\<close>

definition three_character_name :: result where
  "three_character_name =
     \<lparr>display_name = Some ([0x5FC3, 0x7642, 0x6240] @ ascii '', Tokyo''), address = None,
      lat = None, lon = None\<rparr>"

text \<open>A result whose address binds the city to the empty text and gives a town.\<close>

definition empty_city :: result where
  "empty_city =
     \<lparr>display_name = Some (ascii ''Calm Clinic, Baner''),
      address = Some [(''city'', []), (''town'', ascii ''Baner'')],
      lat = None, lon = None\<rparr>"

definition ok_response :: "result list \<Rightarrow> http_response" where
  "ok_response results = \<lparr>status_code = 200, json = Inr results\<rparr>"

text \<open>A service that offers the result with the empty city to every query.\<close>

definition empty_city_get :: requests_get where
  "empty_city_get = (\<lambda>q. Inr (ok_response [empty_city]))"

definition duplicate_get :: requests_get where
  "duplicate_get =
     (\<lambda>q. if q = ascii ''therapist Pune''
          then Inr (ok_response
                 [calm_clinic, calm_clinic_again, short_name, three_character_name])
          else Inr (ok_response []))"




text \<open>A service that answers the first query with status 503 and the others with one
  result.\<close>

definition outage_get :: requests_get where
  "outage_get =
     (\<lambda>q. if q = ascii ''therapist Pune''
          then Inr \<lparr>status_code = 503, json = Inl (Exception ''JSONDecodeError'')\<rparr>
          else Inr (ok_response [calm_clinic]))"

text \<open>A service that answers every query with status 503.\<close>

definition all_503_get :: requests_get where
  "all_503_get =
     (\<lambda>q. Inr \<lparr>status_code = 503, json = Inl (Exception ''JSONDecodeError'')\<rparr>)"

subsection \<open>The composed address as the specification words it\<close>

text \<open>
  A field of the address is present when its key is bound to a non-empty text. The parts
  as the specification words them, in the order of preference: house number and road (or
  the road alone), the first present of \<^verbatim>\<open>city\<close>, \<^verbatim>\<open>town\<close> and \<^verbatim>\<open>village\<close>, the state,
  the postcode.
\<close>

definition nonempty_field :: "(string \<times> str) list \<Rightarrow> string \<Rightarrow> str option" where
  "nonempty_field d k =
     (case map_of d k of None \<Rightarrow> None | Some v \<Rightarrow> if v = [] then None else Some v)"

definition first_present :: "(string \<times> str) list \<Rightarrow> string list \<Rightarrow> str option" where
  "first_present d ks =
     (case List.map_filter (nonempty_field d) ks of [] \<Rightarrow> None | v # _ \<Rightarrow> Some v)"

definition street :: "(string \<times> str) list \<Rightarrow> str option" where
  "street d =
     (case nonempty_field d ''road'' of
        None \<Rightarrow> None
      | Some road \<Rightarrow>
          (case nonempty_field d ''house_number'' of
             None \<Rightarrow> Some road
           | Some house_number \<Rightarrow> Some (house_number @ ascii '' '' @ road)))"

definition claimed_parts :: "result \<Rightarrow> str list" where
  "claimed_parts r =
     (let d = field_or (address r) []
      in List.map_filter id
           [street d, first_present d [''city'', ''town'', ''village''],
            nonempty_field d ''state'', nonempty_field d ''postcode''])"

text \<open>
  The parts as the code builds them differ in the locality alone: of \<^verbatim>\<open>city\<close>,
  \<^verbatim>\<open>town\<close> and \<^verbatim>\<open>village\<close>, the first key that the address binds gives it, and it is
  kept when its text is not empty.
\<close>

definition first_bound :: "(string \<times> str) list \<Rightarrow> string list \<Rightarrow> str option" where
  "first_bound d ks =
     (case filter (\<lambda>k. map_of d k \<noteq> None) ks of [] \<Rightarrow> None | k # _ \<Rightarrow> map_of d k)"

definition locality :: "(string \<times> str) list \<Rightarrow> str option" where
  "locality d =
     (case first_bound d [''city'', ''town'', ''village''] of
        None \<Rightarrow> None
      | Some v \<Rightarrow> if v = [] then None else Some v)"

definition preferred_parts :: "result \<Rightarrow> str list" where
  "preferred_parts r =
     (let d = field_or (address r) []
      in List.map_filter id
           [street d, locality d, nonempty_field d ''state'', nonempty_field d ''postcode''])"

definition address_keys :: "string list" where
  "address_keys =
     [''house_number'', ''road'', ''city'', ''town'', ''village'', ''state'', ''postcode'']"

section \<open>Properties of parse\_response\<close>

lemma tool_loop_last: "tool_loop msgs t = last_or t (map getattr_name msgs)"
  by (induction msgs arbitrary: t) (simp_all add: last_or_def)

lemma agent_loop_last:
  "agent_loop msgs r = last_or r (filter truthy (map content msgs))"
  by (induction msgs arbitrary: r) (simp_all add: last_or_def)

lemma last_or_append: "last_or (last_or d xs) ys = last_or d (xs @ ys)"
  by (simp add: last_or_def)

lemma parse_loop_last:
  "parse_loop stream st =
     (last_or (fst st) (tool_names_seen stream), last_or (snd st) (agent_contents_seen stream))"
proof (induction stream arbitrary: st)
  case Nil
  show ?case by (simp add: tool_names_seen_def agent_contents_seen_def last_or_def)
next
  case (Cons s stream)
  show ?case
    by (simp add: Cons.IH parse_step_def tool_loop_last agent_loop_last last_or_append
        tool_names_seen_def agent_contents_seen_def)
qed

lemma messages_of_untagged: "\<not> tool_tagged s \<Longrightarrow> messages_of ''tools'' s = []"
  by (simp add: tool_tagged_def messages_of_def split: option.splits)

lemma parse_loop_foldl: "parse_loop stream st = foldl parse_step st stream"
  by (induction stream arbitrary: st) simp_all

text \<open>
  Claim C1. \<open>parse_response\<close> is a fold of the step function over the stream, from the
  sentinel \<open>''None''\<close> and \<^verbatim>\<open>None\<close>. For every stream it returns the pair of the last
  tool name seen in the tool-tagged steps (the sentinel when none was seen, in particular
  when no step is tool-tagged) and the last truthy content seen in the agent-tagged steps.
  On the three-step stream of the specification it returns
  \<open>(''locate_therapist_tool'', ''Final answer'')\<close>.
\<close>

theorem parse_response_last_seen:
  "parse_response stream = foldl parse_step (PyStr ''None'', PyNone) stream
   \<and> parse_response stream = last_seen stream
   \<and> ((\<forall>s \<in> set stream. \<not> tool_tagged s) \<longrightarrow> fst (parse_response stream) = PyStr ''None'')
   \<and> parse_response example_stream = (PyStr ''locate_therapist_tool'', PyStr ''Final answer'')"
proof -
  have fold: "parse_response stream = foldl parse_step (PyStr ''None'', PyNone) stream"
    by (simp add: parse_response_def parse_loop_foldl)
  have seen: "parse_response s' = last_seen s'" for s'
    by (simp add: parse_response_def parse_loop_last last_seen_def)
  have untagged: "fst (parse_response stream) = PyStr ''None''"
    if "\<forall>s \<in> set stream. \<not> tool_tagged s"
  proof -
    from that have "concat (map (messages_of ''tools'') stream) = []"
      by (simp add: messages_of_untagged)
    then show ?thesis
      by (simp add: seen last_seen_def tool_names_seen_def last_or_def)
  qed
  have "last_seen example_stream = (PyStr ''locate_therapist_tool'', PyStr ''Final answer'')"
    by (simp add: last_seen_def example_stream_def tool_names_seen_def agent_contents_seen_def
        messages_of_def getattr_name_def last_or_def)
  with fold seen untagged show ?thesis by simp
qed

theorem parse_response_last_seen_witness:
  "list_all (\<lambda>s. \<not> tool_tagged s) greeting_stream
   \<and> parse_response greeting_stream = (PyStr ''None'', PyStr ''Hello'')"
proof -
  have h: "\<forall>s \<in> set greeting_stream. \<not> tool_tagged s"
    by (simp add: greeting_stream_def tool_tagged_def)
  have "snd (last_seen greeting_stream) = PyStr ''Hello''"
    by (simp add: greeting_stream_def last_seen_def agent_contents_seen_def messages_of_def
        last_or_def)
  with h parse_response_last_seen [of greeting_stream] show ?thesis
    by (metis prod.collapse list_all_iff)
qed

text \<open>
  Claim C8. There is a stream with a tool-tagged step on which \<open>parse_response\<close> returns
  the tool name \<open>''None''\<close>: every message of a tool step overwrites the recorded name with
  \<^verbatim>\<open>getattr(msg, 'name', 'None')\<close>, so a tool message without the attribute yields the
  sentinel, also after a named message has been recorded.
\<close>

theorem parse_response_sentinel_after_tool_step:
  "list_ex tool_tagged unnamed_tool_stream
   \<and> fst (parse_response unnamed_tool_stream) = PyStr ''None''
   \<and> list_ex tool_tagged renamed_tool_stream
   \<and> fst (parse_response [hd renamed_tool_stream]) = PyStr ''locate_therapist_tool''
   \<and> fst (parse_response renamed_tool_stream) = PyStr ''None''
   \<and> (\<exists>stream. list_ex tool_tagged stream \<and> fst (parse_response stream) = PyStr ''None'')"
proof -
  have a: "list_ex tool_tagged unnamed_tool_stream"
    by (simp add: unnamed_tool_stream_def tool_tagged_def)
  have b: "fst (parse_response unnamed_tool_stream) = PyStr ''None''"
    by (simp add: unnamed_tool_stream_def parse_response_def parse_step_def messages_of_def
        getattr_name_def)
  have c: "list_ex tool_tagged renamed_tool_stream"
    by (simp add: renamed_tool_stream_def tool_tagged_def)
  have d: "fst (parse_response [hd renamed_tool_stream]) = PyStr ''locate_therapist_tool''"
    by (simp add: renamed_tool_stream_def parse_response_def parse_step_def messages_of_def
        getattr_name_def)
  have e: "fst (parse_response renamed_tool_stream) = PyStr ''None''"
    by (simp add: renamed_tool_stream_def parse_response_def parse_step_def messages_of_def
        getattr_name_def)
  from a b c d e show ?thesis by blast
qed

lemma agent_contents_seen_empty:
  "(\<forall>s \<in> set stream. \<forall>m \<in> set (messages_of ''agent'' s). \<not> truthy (content m))
   \<Longrightarrow> agent_contents_seen stream = []"
  by (auto simp add: agent_contents_seen_def filter_empty_conv)

text \<open>
  Claim C9. When no agent-tagged step of the stream carries a message with truthy content
  (messages with empty-string content included), the final response returned is
  \<^verbatim>\<open>None\<close>; and running the loop over such steps from any recorded pair leaves the
  recorded final response as it was.
\<close>

theorem parse_response_no_truthy_content:
  "(\<forall>s \<in> set stream. \<forall>m \<in> set (messages_of ''agent'' s). \<not> truthy (content m))
   \<Longrightarrow> snd (parse_response stream) = PyNone
       \<and> (\<forall>t r. snd (parse_loop stream (t, r)) = r)"
proof -
  assume "\<forall>s \<in> set stream. \<forall>m \<in> set (messages_of ''agent'' s). \<not> truthy (content m)"
  then have "agent_contents_seen stream = []"
    by (rule agent_contents_seen_empty)
  then show ?thesis
    by (simp add: parse_response_def parse_loop_last last_or_def)
qed

theorem parse_response_no_truthy_content_witness:
  "list_all (\<lambda>s. list_all (\<lambda>m. \<not> truthy (content m)) (messages_of ''agent'' s))
     empty_content_stream
   \<and> snd (parse_response empty_content_stream) = PyNone
   \<and> snd (parse_loop empty_content_stream (PyStr ''None'', PyStr ''Earlier answer''))
       = PyStr ''Earlier answer''"
proof -
  have h: "\<forall>s \<in> set empty_content_stream. \<forall>m \<in> set (messages_of ''agent'' s). \<not> truthy (content m)"
    by (simp add: empty_content_stream_def messages_of_def)
  from h parse_response_no_truthy_content [OF h] show ?thesis
    by (simp add: list_all_iff)
qed

section \<open>Properties of the texts\<close>

lemma ascii_append: "ascii (xs @ ys) = ascii xs @ ascii ys"
  by (simp add: ascii_def)

lemma ascii_eq_iff: "ascii xs = ascii ys \<longleftrightarrow> xs = ys"
  unfolding ascii_def by (metis inj_of_char inj_map_eq_map)

lemma length_ascii: "length (ascii xs) = length xs"
  by (simp add: ascii_def)

section \<open>Properties of query\_medgemma\<close>

lemma strip_answer: "strip (ascii '' I hear you. '') = ascii ''I hear you.''"
  by (simp add: strip_def isspace_def ascii_def)

lemma strip_smile:
  "strip (ascii '' I hear you '' @ [0x1F605]) = ascii ''I hear you '' @ [0x1F605]"
  by (simp add: strip_def isspace_def ascii_def)

lemma reply_content_keyless:
  "map_of response ''message'' = None \<Longrightarrow> \<exists>e. reply_content response = Inl e"
  by (simp add: reply_content_def and_then_def subscript_def)

lemma reply_content_contentless:
  "map_of response ''message'' = Some message \<Longrightarrow> map_of message ''content'' = None
   \<Longrightarrow> \<exists>e. reply_content response = Inl e"
  by (simp add: reply_content_def and_then_def subscript_def)

text \<open>
  Claim C3, as stated, fails: with a backend whose reply has blank content the function
  returns the empty string.
\<close>

theorem query_medgemma_empty_counterexample:
  "fst (query_medgemma blank_ollama (ascii ''hello'')) = Inr []"
  by (simp add: query_medgemma_def blank_ollama_def try_except_def and_then_def
      reply_content_def subscript_def str_strip_def strip_def isspace_def ascii_def)

text \<open>
  Claim C3, amended. \<open>query_medgemma\<close> never raises and calls the model at most once.
  With the backend absent it returns exactly the backend-unavailable string, which is not
  empty, without calling the model. With a backend, it returns the fixed
  generation-failed string, which is not empty, when the call raises and when the reading
  of the reply raises (the reply has no \<^verbatim>\<open>'message'\<close>, the message has no
  \<^verbatim>\<open>'content'\<close>, or the content is \<^verbatim>\<open>None\<close>); and it returns the content of the reply
  stripped of the whitespace at its ends when the content is a text. The result is empty
  only in the last case, when the stripped content is empty.
\<close>

theorem query_medgemma_returns:
  "(\<exists>s. fst (query_medgemma ollama prompt) = Inr s
        \<and> (s = [] \<longrightarrow>
             (\<exists>chat response c. ollama = Some chat \<and> chat (chat_args prompt) = Inr response
                \<and> reply_content response = Inr (Some c) \<and> strip c = [])))
   \<and> query_medgemma None prompt = (Inr backend_unavailable, [])
   \<and> backend_unavailable \<noteq> []
   \<and> generation_failed \<noteq> []
   \<and> length (snd (query_medgemma ollama prompt)) \<le> 1
   \<and> (\<forall>chat e. ollama = Some chat \<and> chat (chat_args prompt) = Inl e
        \<longrightarrow> fst (query_medgemma ollama prompt) = Inr generation_failed)
   \<and> (\<forall>chat response e. ollama = Some chat \<and> chat (chat_args prompt) = Inr response
          \<and> reply_content response = Inl e
        \<longrightarrow> fst (query_medgemma ollama prompt) = Inr generation_failed)
   \<and> (\<forall>response. map_of response ''message'' = None
        \<longrightarrow> (\<exists>e. reply_content response = Inl e))
   \<and> (\<forall>response message. map_of response ''message'' = Some message
          \<and> map_of message ''content'' = None
        \<longrightarrow> (\<exists>e. reply_content response = Inl e))
   \<and> (\<forall>chat response. ollama = Some chat \<and> chat (chat_args prompt) = Inr response
          \<and> reply_content response = Inr None
        \<longrightarrow> fst (query_medgemma ollama prompt) = Inr generation_failed)
   \<and> (\<forall>chat response c. ollama = Some chat \<and> chat (chat_args prompt) = Inr response
          \<and> reply_content response = Inr (Some c)
        \<longrightarrow> fst (query_medgemma ollama prompt) = Inr (strip c))"
proof -
  have failed: "generation_failed \<noteq> []"
    by (simp add: generation_failed_def ascii_def)
  have nonempty: "backend_unavailable \<noteq> []"
    by (simp add: backend_unavailable_def ascii_def)
  have total: "\<exists>s. fst (query_medgemma ollama prompt) = Inr s
        \<and> (s = [] \<longrightarrow>
             (\<exists>chat response c. ollama = Some chat \<and> chat (chat_args prompt) = Inr response
                \<and> reply_content response = Inr (Some c) \<and> strip c = []))"
  proof (cases ollama)
    case None
    with nonempty show ?thesis by (simp add: query_medgemma_def)
  next
    case (Some chat)
    show ?thesis
    proof (cases "chat (chat_args prompt)")
      case (Inl e)
      with Some failed show ?thesis
        by (simp add: query_medgemma_def try_except_def and_then_def)
    next
      case (Inr response)
      show ?thesis
      proof (cases "reply_content response")
        case (Inl e)
        with Some Inr failed show ?thesis
          by (simp add: query_medgemma_def try_except_def and_then_def)
      next
        case c: (Inr v)
        with Some Inr failed show ?thesis
          by (cases v)
            (simp_all add: query_medgemma_def try_except_def and_then_def str_strip_def)
      qed
    qed
  qed
  have absent: "query_medgemma None prompt = (Inr backend_unavailable, [])"
    by (simp add: query_medgemma_def)
  have once: "length (snd (query_medgemma ollama prompt)) \<le> 1"
    by (cases ollama) (simp_all add: query_medgemma_def)
  have raised: "\<forall>chat e. ollama = Some chat \<and> chat (chat_args prompt) = Inl e
        \<longrightarrow> fst (query_medgemma ollama prompt) = Inr generation_failed"
    by (simp add: query_medgemma_def try_except_def and_then_def)
  have reading: "\<forall>chat response e. ollama = Some chat \<and> chat (chat_args prompt) = Inr response
          \<and> reply_content response = Inl e
        \<longrightarrow> fst (query_medgemma ollama prompt) = Inr generation_failed"
    by (simp add: query_medgemma_def try_except_def and_then_def)
  have keyless: "\<forall>response. map_of response ''message'' = None
        \<longrightarrow> (\<exists>e. reply_content response = Inl e)"
    by (simp add: reply_content_keyless)
  have contentless: "\<forall>response message. map_of response ''message'' = Some message
          \<and> map_of message ''content'' = None
        \<longrightarrow> (\<exists>e. reply_content response = Inl e)"
    by (simp add: reply_content_contentless)
  have silent: "\<forall>chat response. ollama = Some chat \<and> chat (chat_args prompt) = Inr response
          \<and> reply_content response = Inr None
        \<longrightarrow> fst (query_medgemma ollama prompt) = Inr generation_failed"
    by (simp add: query_medgemma_def try_except_def and_then_def str_strip_def)
  have replied: "\<forall>chat response c. ollama = Some chat \<and> chat (chat_args prompt) = Inr response
          \<and> reply_content response = Inr (Some c)
        \<longrightarrow> fst (query_medgemma ollama prompt) = Inr (strip c)"
    by (simp add: query_medgemma_def try_except_def and_then_def str_strip_def)
  from total absent nonempty failed once raised reading keyless contentless silent replied
  show ?thesis by blast
qed

theorem query_medgemma_returns_witness:
  "fst (query_medgemma answering_ollama (ascii ''hello'')) = Inr (ascii ''I hear you.'')
   \<and> fst (query_medgemma smiling_ollama (ascii ''hello''))
       = Inr (ascii ''I hear you '' @ [0x1F605])
   \<and> fst (query_medgemma failing_ollama (ascii ''hello'')) = Inr generation_failed
   \<and> fst (query_medgemma keyless_ollama (ascii ''hello'')) = Inr generation_failed
   \<and> fst (query_medgemma silent_ollama (ascii ''hello'')) = Inr generation_failed"
proof -
  have "reply_content [(''message'', [(''role'', Some (ascii ''assistant'')),
                                       (''content'', Some (ascii '' I hear you. ''))])]
          = Inr (Some (ascii '' I hear you. ''))"
    by (simp add: reply_content_def and_then_def subscript_def)
  with query_medgemma_returns [of answering_ollama "ascii ''hello''"]
  have a: "fst (query_medgemma answering_ollama (ascii ''hello'')) = Inr (ascii ''I hear you.'')"
    by (simp add: answering_ollama_def strip_answer)
  have "reply_content [(''message'', [(''content'', Some (ascii '' I hear you '' @ [0x1F605]))])]
          = Inr (Some (ascii '' I hear you '' @ [0x1F605]))"
    by (simp add: reply_content_def and_then_def subscript_def)
  with query_medgemma_returns [of smiling_ollama "ascii ''hello''"]
  have b: "fst (query_medgemma smiling_ollama (ascii ''hello''))
       = Inr (ascii ''I hear you '' @ [0x1F605])"
    by (simp add: smiling_ollama_def strip_smile)
  from query_medgemma_returns [of failing_ollama "ascii ''hello''"]
  have c: "fst (query_medgemma failing_ollama (ascii ''hello'')) = Inr generation_failed"
    by (simp add: failing_ollama_def)
  have "\<exists>e. reply_content [(''done'', [])] = Inl e"
    by (simp add: reply_content_keyless)
  with query_medgemma_returns [of keyless_ollama "ascii ''hello''"]
  have d: "fst (query_medgemma keyless_ollama (ascii ''hello'')) = Inr generation_failed"
    by (auto simp: keyless_ollama_def)
  have "reply_content [(''message'', [(''content'', None)])] = Inr None"
    by (simp add: reply_content_def and_then_def subscript_def)
  with query_medgemma_returns [of silent_ollama "ascii ''hello''"]
  have e: "fst (query_medgemma silent_ollama (ascii ''hello'')) = Inr generation_failed"
    by (simp add: silent_ollama_def)
  from a b c d e show ?thesis by blast
qed

section \<open>Properties of call\_emergency and emergency\_call\_tool\<close>

text \<open>
  Claim C6. \<open>call_emergency\<close> never raises and calls \<^verbatim>\<open>calls.create\<close> at most once.
  It returns \<^verbatim>\<open>None\<close> when the client class is unavailable, when constructing the
  client raises (no call is then attempted), and when creating the call raises (after that
  single attempt, with no second one).
\<close>

theorem call_emergency_at_most_one_call:
  "(\<exists>r. fst (call_emergency cfg Client) = Inr r)
   \<and> length (filter is_Create (snd (call_emergency cfg Client))) \<le> 1
   \<and> fst (call_emergency cfg None) = Inr None
   \<and> filter is_Create (snd (call_emergency cfg None)) = []
   \<and> (\<forall>new_client e.
         Client = Some new_client
         \<and> new_client (TWILIO_ACCOUNT_SID cfg) (TWILIO_AUTH_TOKEN cfg) = Inl e
        \<longrightarrow> fst (call_emergency cfg Client) = Inr None
            \<and> filter is_Create (snd (call_emergency cfg Client)) = [])
   \<and> (\<forall>new_client client e.
         Client = Some new_client
         \<and> new_client (TWILIO_ACCOUNT_SID cfg) (TWILIO_AUTH_TOKEN cfg) = Inr client
         \<and> calls_create client (call_args cfg) = Inl e
        \<longrightarrow> fst (call_emergency cfg Client) = Inr None
            \<and> filter is_Create (snd (call_emergency cfg Client)) = [Create (call_args cfg)])"
proof -
  have total: "\<exists>r. fst (call_emergency cfg Client) = Inr r"
    by (simp add: call_emergency_def Let_def split: option.splits sum.splits)
  have once: "length (filter is_Create (snd (call_emergency cfg Client))) \<le> 1"
    by (simp add: call_emergency_def Let_def split: option.splits sum.splits)
  have absent: "fst (call_emergency cfg None) = Inr None
      \<and> filter is_Create (snd (call_emergency cfg None)) = []"
    by (simp add: call_emergency_def)
  have construct: "\<forall>new_client e.
         Client = Some new_client
         \<and> new_client (TWILIO_ACCOUNT_SID cfg) (TWILIO_AUTH_TOKEN cfg) = Inl e
        \<longrightarrow> fst (call_emergency cfg Client) = Inr None
            \<and> filter is_Create (snd (call_emergency cfg Client)) = []"
    by (simp add: call_emergency_def)
  have create: "\<forall>new_client client e.
         Client = Some new_client
         \<and> new_client (TWILIO_ACCOUNT_SID cfg) (TWILIO_AUTH_TOKEN cfg) = Inr client
         \<and> calls_create client (call_args cfg) = Inl e
        \<longrightarrow> fst (call_emergency cfg Client) = Inr None
            \<and> filter is_Create (snd (call_emergency cfg Client)) = [Create (call_args cfg)]"
    by (simp add: call_emergency_def Let_def)
  from total once absent construct create show ?thesis by blast
qed

theorem call_emergency_at_most_one_call_witness:
  "fst (call_emergency example_config failing_Client) = Inr None
   \<and> filter is_Create (snd (call_emergency example_config failing_Client))
       = [Create (CallRequest ''+15550199'' ''+15550100'' ''http://demo.twilio.com/docs/voice.xml'')]
   \<and> fst (call_emergency example_config unauthorised_Client) = Inr None
   \<and> filter is_Create (snd (call_emergency example_config unauthorised_Client)) = []"
proof -
  from call_emergency_at_most_one_call [of example_config failing_Client]
  have a: "fst (call_emergency example_config failing_Client) = Inr None
     \<and> filter is_Create (snd (call_emergency example_config failing_Client))
         = [Create (call_args example_config)]"
    by (simp add: failing_Client_def)
  from call_emergency_at_most_one_call [of example_config unauthorised_Client]
  have b: "fst (call_emergency example_config unauthorised_Client) = Inr None
     \<and> filter is_Create (snd (call_emergency example_config unauthorised_Client)) = []"
    by (simp add: unauthorised_Client_def)
  from a b show ?thesis
    by (simp add: call_args_def example_config_def)
qed

text \<open>
  Claim C10. \<open>emergency_call_tool\<close> returns \<^verbatim>\<open>None\<close> whatever \<open>call_emergency\<close>
  returned, with the same effects: also when the call was placed and \<open>call_emergency\<close>
  returned its record, so the results of a placed and of a failed call are equal.
\<close>

theorem emergency_call_tool_returns_None:
  "fst (emergency_call_tool cfg Client) = Inr None
   \<and> snd (emergency_call_tool cfg Client) = snd (call_emergency cfg Client)
   \<and> fst (call_emergency example_config working_Client) = Inr (Some (Call ''CA0001''))
   \<and> fst (emergency_call_tool example_config working_Client) = Inr None
   \<and> fst (emergency_call_tool example_config working_Client)
       = fst (emergency_call_tool example_config failing_Client)"
proof -
  have a: "fst (emergency_call_tool c C) = Inr None" for c C
    by (simp add: emergency_call_tool_def call_emergency_def Let_def
        split: option.splits sum.splits)
  have b: "snd (emergency_call_tool cfg Client) = snd (call_emergency cfg Client)"
    by (simp add: emergency_call_tool_def call_emergency_def Let_def
        split: option.splits sum.splits)
  have c: "fst (call_emergency example_config working_Client) = Inr (Some (Call ''CA0001''))"
    by (simp add: call_emergency_def working_Client_def Let_def)
  from a b c show ?thesis by simp
qed

section \<open>Properties of locate\_therapist\_tool\<close>

lemma results_loop_accepted:
  "results_loop rs (map entry acc, seen) =
     (map entry (fst (accepted_loop rs (acc, seen))), snd (accepted_loop rs (acc, seen)))"
proof (induction rs arbitrary: acc seen)
  case Nil
  show ?case by simp
next
  case (Cons r rs)
  from Cons.IH [of "acc @ [r]" "insert (extract_name r) seen"] Cons.IH [of acc seen]
  show ?case by simp
qed

lemma queries_loop_accepted:
  "queries_loop get qs (map entry acc, seen) =
     (case accepted_queries get qs (acc, seen) of
        Inl e \<Rightarrow> Inl e
      | Inr st \<Rightarrow> Inr (map entry (fst st), snd st))"
proof (induction qs arbitrary: acc seen)
  case Nil
  show ?case by simp
next
  case (Cons q qs)
  show ?case
  proof (cases "get q")
    case (Inl e)
    then show ?thesis by simp
  next
    case (Inr response)
    show ?thesis
    proof (cases "json response")
      case bad: (Inl e)
      with Inr Cons.IH [of acc seen] show ?thesis by simp
    next
      case ok: (Inr results)
      obtain acc' seen' where st: "accepted_loop results (acc, seen) = (acc', seen')"
        by (cases "accepted_loop results (acc, seen)")
      then have "results_loop results (map entry acc, seen) = (map entry acc', seen')"
        by (simp add: results_loop_accepted)
      with Inr ok st Cons.IH [of acc seen] Cons.IH [of acc' seen'] show ?thesis by simp
    qed
  qed
qed

lemma find_snoc:
  "find P (xs @ [x]) = (case find P xs of Some y \<Rightarrow> Some y | None \<Rightarrow> if P x then Some x else None)"
  by (induction xs) auto

lemma accepted_inv_skip:
  "accepted_inv pre (acc, seen) \<Longrightarrow>
   \<not> (extract_name r \<noteq> [] \<and> extract_name r \<notin> seen \<and> 3 < length (extract_name r)) \<Longrightarrow>
   accepted_inv (pre @ [r]) (acc, seen)"
  by (auto simp: accepted_inv_def find_snoc)

lemma accepted_inv_take:
  assumes "accepted_inv pre (acc, seen)" "extract_name r \<notin> seen" "3 < length (extract_name r)"
  shows "accepted_inv (pre @ [r]) (acc @ [r], insert (extract_name r) seen)"
proof -
  have none: "find (\<lambda>r'. extract_name r' = extract_name r) pre = None"
  proof -
    have "extract_name x \<noteq> extract_name r" if "x \<in> set pre" for x
    proof
      assume eq: "extract_name x = extract_name r"
      with assms(3) have "3 < length (extract_name x)" by simp
      with assms(1) that have "extract_name x \<in> seen"
        unfolding accepted_inv_def by fastforce
      with eq assms(2) show False by simp
    qed
    then show ?thesis by (auto simp: find_None_iff)
  qed
  show ?thesis
    using assms none by (auto simp: accepted_inv_def find_snoc)
qed

lemma accepted_loop_inv:
  "accepted_inv pre (acc, seen) \<Longrightarrow> length acc < 5 \<Longrightarrow>
   \<exists>used rest. rs = used @ rest
      \<and> accepted_inv (pre @ used) (accepted_loop rs (acc, seen))
      \<and> length (fst (accepted_loop rs (acc, seen))) \<le> 5
      \<and> (length (fst (accepted_loop rs (acc, seen))) < 5 \<longrightarrow> rest = [])"
proof (induction rs arbitrary: pre acc seen)
  case Nil
  then show ?case by simp
next
  case (Cons r rs)
  show ?case
  proof (cases "extract_name r \<noteq> [] \<and> extract_name r \<notin> seen \<and> 3 < length (extract_name r)")
    case False
    with Cons.prems have "accepted_inv (pre @ [r]) (acc, seen)"
      by (simp add: accepted_inv_skip)
    from Cons.IH [OF this Cons.prems(2)] obtain used rest where
      "rs = used @ rest"
      "accepted_inv ((pre @ [r]) @ used) (accepted_loop rs (acc, seen))"
      "length (fst (accepted_loop rs (acc, seen))) \<le> 5"
      "length (fst (accepted_loop rs (acc, seen))) < 5 \<longrightarrow> rest = []"
      by blast
    with False show ?thesis
      by (intro exI [of _ "r # used"] exI [of _ rest]) auto
  next
    case True
    with Cons.prems have inv': "accepted_inv (pre @ [r]) (acc @ [r], insert (extract_name r) seen)"
      by (simp add: accepted_inv_take)
    show ?thesis
    proof (cases "5 \<le> length (acc @ [r])")
      case full: True
      with True inv' Cons.prems(2) show ?thesis
        by (intro exI [of _ "[r]"] exI [of _ rs]) auto
    next
      case more: False
      then have "length (acc @ [r]) < 5" by simp
      from Cons.IH [OF inv' this] obtain used rest where
        "rs = used @ rest"
        "accepted_inv ((pre @ [r]) @ used)
           (accepted_loop rs (acc @ [r], insert (extract_name r) seen))"
        "length (fst (accepted_loop rs (acc @ [r], insert (extract_name r) seen))) \<le> 5"
        "length (fst (accepted_loop rs (acc @ [r], insert (extract_name r) seen))) < 5
           \<longrightarrow> rest = []"
        by blast
      with True more show ?thesis
        by (intro exI [of _ "r # used"] exI [of _ rest]) auto
    qed
  qed
qed

lemma accepted_queries_inv:
  "accepted_inv pre st \<Longrightarrow> length (fst st) < 5 \<Longrightarrow> accepted_queries get qs st = Inr st' \<Longrightarrow>
   \<exists>used rest. concat (map (results_of get) qs) = used @ rest
      \<and> accepted_inv (pre @ used) st' \<and> length (fst st') \<le> 5"
proof (induction qs arbitrary: pre st)
  case Nil
  then show ?case by simp
next
  case (Cons q qs)
  obtain acc seen where st: "st = (acc, seen)" by (cases st)
  from Cons.prems(3) obtain response where resp: "get q = Inr response"
    by (cases "get q") simp_all
  show ?case
  proof (cases "status_code response = 200")
    case False
    with resp have none: "results_of get q = []"
      by (simp add: results_of_def)
    from False resp Cons.prems have "accepted_queries get qs st = Inr st'"
      by simp
    from Cons.IH [OF Cons.prems(1) Cons.prems(2) this] none show ?thesis
      by simp
  next
    case True
    with resp Cons.prems(3) obtain results where js: "json response = Inr results"
      by (cases "json response") simp_all
    with True resp have raw: "results_of get q = results"
      by (simp add: results_of_def)
    let ?st1 = "accepted_loop results (acc, seen)"
    from accepted_loop_inv [of pre acc seen results] Cons.prems(1,2) st
    obtain used1 rest1 where u1: "results = used1 @ rest1"
      and inv1: "accepted_inv (pre @ used1) ?st1"
      and le1: "length (fst ?st1) \<le> 5"
      and rest1: "length (fst ?st1) < 5 \<longrightarrow> rest1 = []"
      by auto
    show ?thesis
    proof (cases "5 \<le> length (fst ?st1)")
      case full: True
      with True resp js st Cons.prems(3) have "st' = ?st1" by simp
      with inv1 le1 u1 raw show ?thesis
        by (intro exI [of _ used1] exI [of _ "rest1 @ concat (map (results_of get) qs)"]) simp
    next
      case more: False
      with rest1 have r1: "rest1 = []" by simp
      from more True resp js st Cons.prems(3)
      have run: "accepted_queries get qs ?st1 = Inr st'" by simp
      from more have "length (fst ?st1) < 5" by simp
      from Cons.IH [OF inv1 this run] obtain used2 rest2 where
        "concat (map (results_of get) qs) = used2 @ rest2"
        "accepted_inv ((pre @ used1) @ used2) st'" "length (fst st') \<le> 5"
        by blast
      with u1 r1 raw show ?thesis
        by (intro exI [of _ "used1 @ used2"] exI [of _ rest2]) simp
    qed
  qed
qed

lemma find_prefix: "find P xs = Some y \<Longrightarrow> find P (xs @ ys) = Some y"
  by (induction xs) (auto split: if_splits)

lemma accepted_inv_start: "accepted_inv [] ([], {})"
  by (simp add: accepted_inv_def)

lemma accepted_properties:
  assumes "accepted get location = Inr acc"
  shows "length acc \<le> 5 \<and> distinct (map extract_name acc)
     \<and> (\<forall>r \<in> set acc. 4 \<le> length (extract_name r))
     \<and> (\<forall>r \<in> set acc.
           find (\<lambda>r'. extract_name r' = extract_name r) (raw_results get location) = Some r)"
proof -
  from assms obtain seen where
    run: "accepted_queries get (queries location) ([], {}) = Inr (acc, seen)"
    by (cases "accepted_queries get (queries location) ([], {})")
      (auto simp: accepted_def and_then_def)
  from accepted_queries_inv [OF accepted_inv_start _ run]
  obtain used rest where raw: "raw_results get location = used @ rest"
    and inv: "accepted_inv used (acc, seen)" and le: "length acc \<le> 5"
    by (auto simp: raw_results_def)
  from inv have d: "distinct (map extract_name acc)"
    and l: "\<forall>r \<in> set acc. 3 < length (extract_name r)"
    and f: "\<forall>r \<in> set acc. find (\<lambda>r'. extract_name r' = extract_name r) used = Some r"
    by (simp_all add: accepted_inv_def)
  from l have l4: "\<forall>r \<in> set acc. 4 \<le> length (extract_name r)"
    by auto
  from f raw have "\<forall>r \<in> set acc.
      find (\<lambda>r'. extract_name r' = extract_name r) (raw_results get location) = Some r"
    by (simp add: find_prefix)
  with le d l4 show ?thesis by blast
qed

lemma locate_accepted:
  "locate_therapist_tool get location =
     Inr (case accepted get location of
            Inl e \<Rightarrow> services_unavailable location
          | Inr acc \<Rightarrow> listing location (map entry acc))"
proof -
  from queries_loop_accepted [of get "queries location" "[]" "{}"]
  show ?thesis
    by (simp add: locate_therapist_tool_def locate_body_def accepted_def try_except_def
        and_then_def split: sum.splits)
qed

lemma str_split_nonempty: "str_split sep s \<noteq> []"
  by (induction s) (auto split: list.splits)

lemma str_split_hd: "hd (str_split sep s) = takeWhile (\<lambda>c. c \<noteq> sep) s"
  by (induction s) (auto simp: str_split_nonempty split: list.splits)

lemma extract_name_calm_clinic: "extract_name calm_clinic = ascii ''Calm Clinic''"
  by (simp add: extract_name_def calm_clinic_def field_or_def ascii_def comma_def)

lemma extract_name_calm_clinic_again: "extract_name calm_clinic_again = ascii ''Calm Clinic''"
  by (simp add: extract_name_def calm_clinic_again_def field_or_def ascii_def comma_def)

lemma extract_name_short_name: "extract_name short_name = ascii ''Dr''"
  by (simp add: extract_name_def short_name_def field_or_def ascii_def comma_def)

lemma extract_name_three_character_name:
  "extract_name three_character_name = [0x5FC3, 0x7642, 0x6240]"
  by (simp add: extract_name_def three_character_name_def field_or_def ascii_def comma_def)

lemma accepted_duplicate_get: "accepted duplicate_get (ascii ''Pune'') = Inr [calm_clinic]"
  by (simp add: accepted_def queries_def duplicate_get_def ok_response_def and_then_def
      extract_name_calm_clinic extract_name_calm_clinic_again extract_name_short_name
      extract_name_three_character_name ascii_def)

text \<open>
  Claim C2. For every service and location, the listing returned is made of the entries
  of the accepted results, of which there are at most five; their extracted display names
  (the text before the first comma, compared as it is) are pairwise distinct, and each
  accepted result is the first of all raw results with its name; no accepted result has a
  display name of fewer than four characters.
\<close>

theorem locate_therapist_tool_entries:
  "locate_therapist_tool get location =
     Inr (case accepted get location of
            Inl e \<Rightarrow> services_unavailable location
          | Inr acc \<Rightarrow> listing location (map entry acc))
   \<and> (\<forall>acc. accepted get location = Inr acc \<longrightarrow>
         length acc \<le> 5
         \<and> distinct (map extract_name acc)
         \<and> (\<forall>r \<in> set acc.
               4 \<le> length (extract_name r)
               \<and> extract_name r = takeWhile (\<lambda>c. c \<noteq> comma) (field_or (display_name r) [])
               \<and> find (\<lambda>r'. extract_name r' = extract_name r) (raw_results get location)
                   = Some r))"
proof -
  have "extract_name r = takeWhile (\<lambda>c. c \<noteq> comma) (field_or (display_name r) [])" for r
    by (simp add: extract_name_def str_split_hd)
  with locate_accepted [of get location] accepted_properties [of get location]
  show ?thesis by blast
qed

theorem locate_therapist_tool_entries_witness:
  "accepted duplicate_get (ascii ''Pune'') = Inr [calm_clinic]
   \<and> raw_results duplicate_get (ascii ''Pune'') = [calm_clinic, calm_clinic_again, short_name, three_character_name]
   \<and> extract_name calm_clinic_again = extract_name calm_clinic
   \<and> locate_therapist_tool duplicate_get (ascii ''Pune'')
       = Inr (header (ascii ''Pune'') @ entry calm_clinic @ footer)
   \<and> find (\<lambda>r'. extract_name r' = extract_name calm_clinic) (raw_results duplicate_get (ascii ''Pune''))
       = Some calm_clinic"
proof -
  have raw: "raw_results duplicate_get (ascii ''Pune'') = [calm_clinic, calm_clinic_again, short_name, three_character_name]"
    by (simp add: raw_results_def queries_def results_of_def duplicate_get_def ok_response_def
        ascii_def)
  have same: "extract_name calm_clinic_again = extract_name calm_clinic"
    by (simp add: extract_name_calm_clinic extract_name_calm_clinic_again)
  note entries = locate_therapist_tool_entries [of duplicate_get "ascii ''Pune''"]
  from entries accepted_duplicate_get
  have a: "locate_therapist_tool duplicate_get (ascii ''Pune'') = Inr (listing (ascii ''Pune'') [entry calm_clinic])"
    by simp
  from entries accepted_duplicate_get
  have b: "find (\<lambda>r'. extract_name r' = extract_name calm_clinic)
             (raw_results duplicate_get (ascii ''Pune'')) = Some calm_clinic"
    by fastforce
  from a have "locate_therapist_tool duplicate_get (ascii ''Pune'')
       = Inr (header (ascii ''Pune'') @ entry calm_clinic @ footer)"
    by (simp add: listing_def)
  with raw same accepted_duplicate_get b show ?thesis
    by blast
qed

lemma results_loop_unusable:
  "list_all (\<lambda>r. length (extract_name r) \<le> 3) results \<Longrightarrow> results_loop results st = st"
  by (induction results) (cases st, simp, cases st, simp)

lemma queries_loop_unusable:
  "list_all (no_usable_results get) qs \<Longrightarrow> length (fst st) < 5 \<Longrightarrow>
   queries_loop get qs st = Inr st"
proof (induction qs)
  case Nil
  show ?case by simp
next
  case (Cons q qs)
  from Cons.prems(1) have q: "no_usable_results get q" and rest: "list_all (no_usable_results get) qs"
    by simp_all
  from Cons.IH [OF rest Cons.prems(2)] have ih: "queries_loop get qs st = Inr st" .
  from q obtain response where resp: "get q = Inr response"
    by (cases "get q") (simp_all add: no_usable_results_def)
  show ?case
  proof (cases "status_code response = 200")
    case False
    with resp ih Cons.prems(2) show ?thesis by simp
  next
    case True
    with q resp obtain results where js: "json response = Inr results"
      and un: "list_all (\<lambda>r. length (extract_name r) \<le> 3) results"
      by (cases "json response") (simp_all add: no_usable_results_def)
    from un have "results_loop results st = st"
      by (rule results_loop_unusable)
    with True resp js ih Cons.prems(2) show ?thesis by simp
  qed
qed

lemma locate_no_usable:
  "list_all (no_usable_results get) (queries location) \<Longrightarrow>
   locate_therapist_tool get location = Inr (no_listings location)"
proof -
  assume "list_all (no_usable_results get) (queries location)"
  then have "queries_loop get (queries location) ([], {}) = Inr ([], {})"
    by (rule queries_loop_unusable) simp
  then show ?thesis
    by (simp add: locate_therapist_tool_def locate_body_def try_except_def and_then_def
        listing_def)
qed

lemma locate_total: "\<exists>s. locate_therapist_tool get location = Inr s"
  by (simp add: locate_therapist_tool_def try_except_def split: sum.splits)



lemma queries_loop_non_200:
  "get q = Inr response \<Longrightarrow> status_code response \<noteq> 200 \<Longrightarrow>
   queries_loop (get(q := Inr (ok_response []))) qs st = queries_loop get qs st"
proof (induction qs arbitrary: st)
  case Nil
  show ?case by simp
next
  case (Cons query qs)
  show ?case
  proof (cases "query = q")
    case True
    with Cons.prems Cons.IH [OF Cons.prems, of st] show ?thesis
      by (simp add: ok_response_def)
  next
    case False
    with Cons.IH [OF Cons.prems] show ?thesis
      by (simp split: sum.splits)
  qed
qed

lemma accepted_outage_get: "accepted outage_get (ascii ''Pune'') = Inr [calm_clinic]"
  by (simp add: accepted_def queries_def outage_get_def ok_response_def and_then_def
      extract_name_calm_clinic ascii_def)

text \<open>
  Claim C5, as stated, fails: the first request is answered with status 503, and the
  function returns the listing built from the other responses, which is neither of the two
  fixed messages.
\<close>

theorem non_200_counterexample:
  "outage_get (ascii ''therapist Pune'')
     = Inr \<lparr>status_code = 503, json = Inl (Exception ''JSONDecodeError'')\<rparr>
   \<and> locate_therapist_tool outage_get (ascii ''Pune'')
       = Inr (header (ascii ''Pune'') @ entry calm_clinic @ footer)
   \<and> header (ascii ''Pune'') @ entry calm_clinic @ footer \<noteq> services_unavailable (ascii ''Pune'')
   \<and> header (ascii ''Pune'') @ entry calm_clinic @ footer \<noteq> no_listings (ascii ''Pune'')"
proof -
  have a: "outage_get (ascii ''therapist Pune'')
      = Inr \<lparr>status_code = 503, json = Inl (Exception ''JSONDecodeError'')\<rparr>"
    by (simp add: outage_get_def)
  have b: "locate_therapist_tool outage_get (ascii ''Pune'')
      = Inr (header (ascii ''Pune'') @ entry calm_clinic @ footer)"
    by (simp add: locate_accepted accepted_outage_get listing_def)
  have c: "header (ascii ''Pune'') @ entry calm_clinic @ footer \<noteq> services_unavailable (ascii ''Pune'')"
    by (simp add: header_def services_unavailable_def ascii_def)
  have d: "header (ascii ''Pune'') @ entry calm_clinic @ footer \<noteq> no_listings (ascii ''Pune'')"
    by (simp add: header_def no_listings_def ascii_def)
  from a b c d show ?thesis by blast
qed

lemma results_loop_length: "length (fst st) \<le> length (fst (results_loop rs st))"
proof (induction rs arbitrary: st)
  case Nil
  show ?case by simp
next
  case (Cons r rs)
  obtain all_results seen_names where st: "st = (all_results, seen_names)"
    by (cases st)
  from Cons.IH [of "(all_results @ [entry r], insert (extract_name r) seen_names)"]
    Cons.IH [of "(all_results, seen_names)"]
  show ?case by (simp add: st)
qed

lemma results_loop_none:
  "fst (results_loop rs ([], {})) = [] \<Longrightarrow> list_all (\<lambda>r. length (extract_name r) \<le> 3) rs"
proof (induction rs)
  case Nil
  show ?case by simp
next
  case (Cons r rs)
  show ?case
  proof (cases "3 < length (extract_name r)")
    case True
    then have "extract_name r \<noteq> []" by auto
    with True Cons.prems
      results_loop_length [of "([entry r], {extract_name r})" rs]
    show ?thesis by (simp split: if_splits)
  next
    case False
    with Cons.prems have "fst (results_loop rs ([], {})) = []" by simp
    with Cons.IH False show ?thesis by simp
  qed
qed

lemma queries_loop_length:
  "queries_loop get qs st = Inr st' \<Longrightarrow> length (fst st) \<le> length (fst st')"
proof (induction qs arbitrary: st)
  case Nil
  then show ?case by simp
next
  case (Cons q qs)
  from Cons.prems obtain response where resp: "get q = Inr response"
    by (cases "get q") simp_all
  show ?case
  proof (cases "status_code response = 200")
    case False
    with Cons.prems resp Cons.IH [of st] show ?thesis
      by (simp split: if_splits)
  next
    case True
    with Cons.prems resp obtain results where js: "json response = Inr results"
      by (cases "json response") simp_all
    from Cons.prems resp True js Cons.IH [of "results_loop results st"]
    have "length (fst (results_loop results st)) \<le> length (fst st')"
      by (simp split: if_splits)
    with results_loop_length [of st results] show ?thesis by simp
  qed
qed

lemma queries_loop_none:
  "queries_loop get qs ([], {}) = Inr st' \<Longrightarrow> fst st' = [] \<Longrightarrow>
   list_all (no_usable_results get) qs"
proof (induction qs)
  case Nil
  show ?case by simp
next
  case (Cons q qs)
  from Cons.prems(1) obtain response where resp: "get q = Inr response"
    by (cases "get q") simp_all
  show ?case
  proof (cases "status_code response = 200")
    case False
    with Cons.prems resp have "queries_loop get qs ([], {}) = Inr st'" by simp
    with Cons.IH Cons.prems(2) resp False show ?thesis
      by (simp add: no_usable_results_def)
  next
    case True
    with Cons.prems(1) resp obtain results where js: "json response = Inr results"
      by (cases "json response") simp_all
    let ?st = "results_loop results ([], {})"
    from Cons.prems(1) resp True js
    have "queries_loop get qs ?st = Inr st' \<or> ?st = st'"
      by (simp split: if_splits)
    with queries_loop_length [of get qs ?st st'] Cons.prems(2)
    have none: "fst ?st = []" by auto
    then have un: "list_all (\<lambda>r. length (extract_name r) \<le> 3) results"
      by (rule results_loop_none)
    then have "?st = ([], {})"
      by (rule results_loop_unusable)
    with Cons.prems(1) resp True js have "queries_loop get qs ([], {}) = Inr st'"
      by simp
    with Cons.IH Cons.prems(2) resp True js un show ?thesis
      by (simp add: no_usable_results_def)
  qed
qed

lemma listing_no_listings: "(listing location xs = no_listings location) = (xs = [])"
  by (simp add: listing_def header_def no_listings_def ascii_def)

lemma unavailable_not_no_listings: "services_unavailable location \<noteq> no_listings location"
  by (simp add: no_listings_def services_unavailable_def ascii_def)

lemma listing_not_unavailable: "listing location xs \<noteq> services_unavailable location"
  by (simp add: listing_def header_def no_listings_def services_unavailable_def ascii_def)

lemma locate_no_listings_iff:
  "(locate_therapist_tool get location = Inr (no_listings location))
   = list_all (no_usable_results get) (queries location)"
proof
  assume "list_all (no_usable_results get) (queries location)"
  then show "locate_therapist_tool get location = Inr (no_listings location)"
    by (rule locate_no_usable)
next
  assume a: "locate_therapist_tool get location = Inr (no_listings location)"
  show "list_all (no_usable_results get) (queries location)"
  proof (cases "queries_loop get (queries location) ([], {})")
    case (Inl e)
    with a have "services_unavailable location = no_listings location"
      by (simp add: locate_therapist_tool_def locate_body_def try_except_def and_then_def)
    then show ?thesis
      by (simp add: no_listings_def services_unavailable_def ascii_def)
  next
    case (Inr st')
    with a have "listing location (fst st') = no_listings location"
      by (simp add: locate_therapist_tool_def locate_body_def try_except_def and_then_def)
    then have "fst st' = []"
      by (simp add: listing_no_listings)
    with Inr show ?thesis by (rule queries_loop_none)
  qed
qed

lemma locate_unavailable_iff:
  "(locate_therapist_tool get location = Inr (services_unavailable location))
   = (\<exists>e. locate_body get location = Inl e)"
proof (cases "queries_loop get (queries location) ([], {})")
  case (Inl e)
  then show ?thesis
    by (simp add: locate_therapist_tool_def locate_body_def try_except_def and_then_def)
next
  case (Inr st')
  then show ?thesis
    by (simp add: locate_therapist_tool_def locate_body_def try_except_def and_then_def
        listing_not_unavailable)
qed

text \<open>
  Claim C5, amended. A response whose status is not 200 raises nothing and produces no
  message: the function returns what it would return had that request been answered with
  status 200 and an empty list of results. The no-listings message is returned exactly
  when every request is answered and no query yields a usable result, a response whose
  status is not 200 counting as yielding none; so it is returned when every request is
  answered with a status other than 200, and it is not returned when some query yields an
  entry. The services-unavailable message is returned exactly when the body of the
  \<^verbatim>\<open>try\<close> raises, which a response whose status is not 200 does not cause: while the
  body goes through the queries, such a response leaves the entries and the names seen
  as they are.
\<close>

theorem non_200_response_passed_over:
  "(\<forall>q response. get q = Inr response \<and> status_code response \<noteq> 200
      \<longrightarrow> locate_therapist_tool get location
            = locate_therapist_tool (get(q := Inr (ok_response []))) location)
   \<and> (list_all (\<lambda>q. case get q of Inl e \<Rightarrow> False | Inr response \<Rightarrow> status_code response \<noteq> 200)
         (queries location)
        \<longrightarrow> locate_therapist_tool get location = Inr (no_listings location))
   \<and> (\<exists>s. locate_therapist_tool get location = Inr s)
   \<and> (locate_therapist_tool get location = Inr (no_listings location))
       = list_all (no_usable_results get) (queries location)
   \<and> (locate_therapist_tool get location = Inr (no_listings location))
       = (accepted get location = Inr [])
   \<and> (locate_therapist_tool get location = Inr (services_unavailable location))
       = (\<exists>e. locate_body get location = Inl e)
   \<and> (\<forall>q rest st response. get q = Inr response \<and> status_code response \<noteq> 200
        \<longrightarrow> queries_loop get (q # rest) st
              = (if 5 \<le> length (fst st) then Inr st else queries_loop get rest st))"
proof -
  have same: "locate_therapist_tool get location
            = locate_therapist_tool (get(q := Inr (ok_response []))) location"
    if "get q = Inr response" "status_code response \<noteq> 200" for q response
    using queries_loop_non_200 [of get q response "queries location" "([], {})"] that
    by (simp add: locate_therapist_tool_def locate_body_def)
  have none: "locate_therapist_tool get location = Inr (no_listings location)"
    if "list_all (\<lambda>q. case get q of Inl e \<Rightarrow> False | Inr response \<Rightarrow> status_code response \<noteq> 200)
         (queries location)"
  proof -
    from that have "list_all (no_usable_results get) (queries location)"
      by (auto simp: list_all_iff no_usable_results_def split: sum.splits)
    then show ?thesis by (rule locate_no_usable)
  qed
  have acc: "(locate_therapist_tool get location = Inr (no_listings location))
       = (accepted get location = Inr [])"
    by (cases "accepted get location")
      (simp_all add: locate_accepted listing_no_listings unavailable_not_no_listings)
  have step: "queries_loop get (q # rest) st
              = (if 5 \<le> length (fst st) then Inr st else queries_loop get rest st)"
    if "get q = Inr response" "status_code response \<noteq> 200" for q rest st response
    using that by simp
  from same none locate_total [of get location] locate_no_listings_iff [of get location]
    acc locate_unavailable_iff [of get location] step
  show ?thesis by blast
qed

theorem non_200_response_passed_over_witness:
  "locate_therapist_tool outage_get (ascii ''Pune'')
     = locate_therapist_tool (outage_get(ascii ''therapist Pune'' := Inr (ok_response [])))
         (ascii ''Pune'')
   \<and> locate_therapist_tool all_503_get (ascii ''Pune'') = Inr (no_listings (ascii ''Pune''))
   \<and> list_all (no_usable_results all_503_get) (queries (ascii ''Pune''))
   \<and> accepted all_503_get (ascii ''Pune'') = Inr []
   \<and> locate_therapist_tool outage_get (ascii ''Pune'') \<noteq> Inr (no_listings (ascii ''Pune''))
   \<and> \<not> list_all (no_usable_results outage_get) (queries (ascii ''Pune''))
   \<and> locate_therapist_tool outage_get (ascii ''Pune'')
       \<noteq> Inr (services_unavailable (ascii ''Pune''))
   \<and> queries_loop outage_get (queries (ascii ''Pune'')) ([], {})
       = queries_loop outage_get (tl (queries (ascii ''Pune''))) ([], {})"
proof -
  note outage = non_200_response_passed_over [of outage_get "ascii ''Pune''"]
  note all_503 = non_200_response_passed_over [of all_503_get "ascii ''Pune''"]
  have h: "outage_get (ascii ''therapist Pune'')
      = Inr \<lparr>status_code = 503, json = Inl (Exception ''JSONDecodeError'')\<rparr>
    \<and> status_code \<lparr>status_code = 503, json = Inl (Exception ''JSONDecodeError'')\<rparr> \<noteq> 200"
    by (simp add: outage_get_def)
  with outage
  have a: "locate_therapist_tool outage_get (ascii ''Pune'')
     = locate_therapist_tool (outage_get(ascii ''therapist Pune'' := Inr (ok_response [])))
         (ascii ''Pune'')"
    by blast
  have "list_all (\<lambda>q. case all_503_get q of Inl e \<Rightarrow> False
                     | Inr response \<Rightarrow> status_code response \<noteq> 200)
         (queries (ascii ''Pune''))"
    by (simp add: queries_def all_503_get_def)
  with all_503
  have b: "locate_therapist_tool all_503_get (ascii ''Pune'') = Inr (no_listings (ascii ''Pune''))"
    by blast
  with all_503 have c: "list_all (no_usable_results all_503_get) (queries (ascii ''Pune''))"
    by blast
  from b all_503 have d: "accepted all_503_get (ascii ''Pune'') = Inr []"
    by blast
  from outage
  have "(locate_therapist_tool outage_get (ascii ''Pune'') = Inr (no_listings (ascii ''Pune'')))
      = (accepted outage_get (ascii ''Pune'') = Inr [])"
    by blast
  with accepted_outage_get
  have e: "locate_therapist_tool outage_get (ascii ''Pune'') \<noteq> Inr (no_listings (ascii ''Pune''))"
    by simp
  with outage have f: "\<not> list_all (no_usable_results outage_get) (queries (ascii ''Pune''))"
    by blast
  have "locate_body outage_get (ascii ''Pune'')
      = Inr (listing (ascii ''Pune'') [entry calm_clinic])"
    using locate_accepted [of outage_get "ascii ''Pune''"] accepted_outage_get
      locate_total [of outage_get "ascii ''Pune''"]
    by (cases "locate_body outage_get (ascii ''Pune'')")
      (simp_all add: locate_therapist_tool_def try_except_def listing_not_unavailable
        listing_not_unavailable [symmetric])
  then have "\<not> (\<exists>e. locate_body outage_get (ascii ''Pune'') = Inl e)"
    by simp
  with outage
  have g: "locate_therapist_tool outage_get (ascii ''Pune'')
       \<noteq> Inr (services_unavailable (ascii ''Pune''))"
    by blast
  from outage h
  have "queries_loop outage_get
          (ascii ''therapist Pune'' # tl (queries (ascii ''Pune''))) ([], {})
       = (if 5 \<le> length (fst (([], {}) :: str list \<times> str set)) then Inr ([], {})
          else queries_loop outage_get (tl (queries (ascii ''Pune''))) ([], {}))"
    by blast
  then have "queries_loop outage_get
          (ascii ''therapist Pune'' # tl (queries (ascii ''Pune''))) ([], {})
       = queries_loop outage_get (tl (queries (ascii ''Pune''))) ([], {})"
    by simp
  moreover have "queries (ascii ''Pune'')
      = ascii ''therapist Pune'' # tl (queries (ascii ''Pune''))"
    by (simp add: queries_def ascii_def)
  ultimately have i: "queries_loop outage_get (queries (ascii ''Pune'')) ([], {})
       = queries_loop outage_get (tl (queries (ascii ''Pune''))) ([], {})"
    by simp
  from a b c d e f g i show ?thesis by blast
qed

lemma street_parts:
  "(if get_default d ''house_number'' [] \<noteq> [] \<and> get_default d ''road'' [] \<noteq> []
    then [get_default d ''house_number'' [] @ ascii '' '' @ get_default d ''road'' []]
    else if get_default d ''road'' [] \<noteq> [] then [get_default d ''road'' []] else [])
   = List.map_filter id [street d]"
  by (simp add: street_def nonempty_field_def get_default_def
      split: option.splits)

lemma locality_parts:
  "(if get_default d ''city'' (get_default d ''town'' (get_default d ''village'' [])) \<noteq> []
    then [get_default d ''city'' (get_default d ''town'' (get_default d ''village'' []))]
    else [])
   = List.map_filter id [locality d]"
  by (simp add: locality_def first_bound_def get_default_def
      split: option.splits)

lemma field_parts:
  "(if get_default d k [] \<noteq> [] then [get_default d k []] else [])
   = List.map_filter id [nonempty_field d k]"
  by (simp add: nonempty_field_def get_default_def split: option.splits)

lemma map_filter_four:
  "List.map_filter id [a, b, c, d]
   = List.map_filter id [a] @ List.map_filter id [b] @ List.map_filter id [c]
     @ List.map_filter id [d]"
  by (simp add: List.map_filter_def)

lemma address_parts_preferred: "address_parts r = preferred_parts r"
  unfolding address_parts_def preferred_parts_def Let_def
  by (simp only: street_parts) (simp only: locality_parts field_parts map_filter_four)

lemma preferred_parts_unbound:
  "list_all (\<lambda>k. map_of (field_or (address r) []) k = None) address_keys
   \<Longrightarrow> preferred_parts r = []"
  by (simp add: preferred_parts_def street_def locality_def nonempty_field_def
      first_bound_def address_keys_def)

lemma extract_name_display_name:
  "extract_name r \<noteq> [] \<Longrightarrow> \<exists>d. display_name r = Some d"
  by (cases "display_name r") (simp_all add: extract_name_def field_or_def)

lemma coordinates_line_cases:
  "coordinates_line r =
     (case (lat r, lon r) of
        (Some a, Some b) \<Rightarrow>
          if a \<noteq> [] \<and> b \<noteq> []
          then world_map @ ascii '' Coordinates: '' @ a @ ascii '', '' @ b @ newline else []
      | _ \<Rightarrow> [])"
  by (simp add: coordinates_line_def field_or_def Let_def split: option.splits)

lemma accepted_empty_city_get: "accepted empty_city_get (ascii ''Pune'') = Inr [empty_city]"
  by (simp add: accepted_def queries_def empty_city_get_def ok_response_def and_then_def
      extract_name_def empty_city_def field_or_def ascii_def comma_def)

lemma locality_first_present:
  "list_all (\<lambda>k. map_of d k \<noteq> Some []) [''city'', ''town'']
   \<Longrightarrow> locality d = first_present d [''city'', ''town'', ''village'']"
  by (simp add: locality_def first_bound_def first_present_def nonempty_field_def
      List.map_filter_def split: option.splits)

lemma preferred_parts_claimed:
  "list_all (\<lambda>k. map_of (field_or (address r) []) k \<noteq> Some []) [''city'', ''town'']
   \<Longrightarrow> preferred_parts r = claimed_parts r"
  by (simp only: preferred_parts_def claimed_parts_def Let_def locality_first_present)

text \<open>
  Claim C7, as stated, fails: the address of this accepted result binds the city to the
  empty text and the town to \<open>Baner\<close>. The first present of city, town and village is the
  town, so the claim composes the address \<open>Baner\<close>; the function finds the key of the
  city, takes no locality, has no part at all and shows the raw display name.
\<close>

theorem empty_city_counterexample:
  "accepted empty_city_get (ascii ''Pune'') = Inr [empty_city]
   \<and> address empty_city = Some [(''city'', []), (''town'', ascii ''Baner'')]
   \<and> first_present (field_or (address empty_city) []) [''city'', ''town'', ''village'']
       = Some (ascii ''Baner'')
   \<and> claimed_parts empty_city = [ascii ''Baner'']
   \<and> join (ascii '', '') (claimed_parts empty_city) = ascii ''Baner''
   \<and> address_parts empty_city = []
   \<and> full_address empty_city = ascii ''Calm Clinic, Baner''
   \<and> full_address empty_city \<noteq> join (ascii '', '') (claimed_parts empty_city)"
proof -
  have a: "address empty_city = Some [(''city'', []), (''town'', ascii ''Baner'')]"
    by (simp add: empty_city_def)
  have b: "first_present (field_or (address empty_city) []) [''city'', ''town'', ''village'']
       = Some (ascii ''Baner'')"
    by (simp add: empty_city_def field_or_def first_present_def nonempty_field_def
        List.map_filter_def ascii_def)
  have c: "claimed_parts empty_city = [ascii ''Baner'']"
    by (simp add: claimed_parts_def empty_city_def field_or_def first_present_def street_def
        nonempty_field_def List.map_filter_def ascii_def)
  have d: "address_parts empty_city = []"
    by (simp add: address_parts_def empty_city_def field_or_def get_default_def)
  have e: "full_address empty_city = ascii ''Calm Clinic, Baner''"
    by (simp add: full_address_def d) (simp add: empty_city_def field_or_def)
  have f: "join (ascii '', '') (claimed_parts empty_city) = ascii ''Baner''"
    by (simp add: c)
  have g: "full_address empty_city \<noteq> join (ascii '', '') (claimed_parts empty_city)"
    unfolding e f by (simp add: ascii_def)
  from accepted_empty_city_get a b c d e f g show ?thesis by blast
qed

text \<open>
  Claim C7, amended. The address of an entry is the parts in this order joined by
  \<open>'', ''\<close>: house number and road when both are present, else the road alone; then the
  text of the first of the keys city, town and village that the address binds, when that
  text is not empty; then the state; then the postcode. A field is present when its key
  is bound to a non-empty text. When neither the city nor the town is bound to the empty
  text, the locality is the first present of city, town and village, and the parts are
  those of the claim. When there is no part, in particular when the address binds none
  of these fields, the address is the raw display name, which an accepted result has.
  The entry holds the line of coordinates exactly when latitude and longitude are both
  present and non-empty.
\<close>

theorem entry_address_by_preference:
  "address_parts r = preferred_parts r
   \<and> (list_all (\<lambda>k. map_of (field_or (address r) []) k \<noteq> Some []) [''city'', ''town'']
        \<longrightarrow> address_parts r = claimed_parts r)
   \<and> full_address r =
       (if preferred_parts r = [] then field_or (display_name r) (ascii ''Address not available'')
        else join (ascii '', '') (preferred_parts r))
   \<and> (list_all (\<lambda>k. map_of (field_or (address r) []) k = None) address_keys
        \<longrightarrow> preferred_parts r = [])
   \<and> (extract_name r \<noteq> [] \<longrightarrow>
        (\<exists>d. display_name r = Some d \<and> (preferred_parts r = [] \<longrightarrow> full_address r = d)))
   \<and> entry r =
       ascii ''**'' @ extract_name r @ ascii ''**'' @ newline
       @ pin @ ascii '' Address: '' @ full_address r @ newline
       @ telephone @ ascii '' Phone: Contact facility directly or search online directories''
       @ newline
       @ coordinates_line r @ ascii ''---''
   \<and> coordinates_line r =
       (case (lat r, lon r) of
          (Some a, Some b) \<Rightarrow>
            if a \<noteq> [] \<and> b \<noteq> []
            then world_map @ ascii '' Coordinates: '' @ a @ ascii '', '' @ b @ newline else []
        | _ \<Rightarrow> [])
   \<and> (coordinates_line r \<noteq> []) = (\<exists>a b. lat r = Some a \<and> lon r = Some b \<and> a \<noteq> [] \<and> b \<noteq> [])"
proof -
  have claimed: "address_parts r = claimed_parts r"
    if "list_all (\<lambda>k. map_of (field_or (address r) []) k \<noteq> Some []) [''city'', ''town'']"
    using that by (simp only: address_parts_preferred preferred_parts_claimed)
  have full: "full_address r =
       (if preferred_parts r = [] then field_or (display_name r) (ascii ''Address not available'')
        else join (ascii '', '') (preferred_parts r))"
    by (simp add: full_address_def address_parts_preferred)
  have fallback: "\<exists>d. display_name r = Some d \<and> (preferred_parts r = [] \<longrightarrow> full_address r = d)"
    if "extract_name r \<noteq> []"
  proof -
    from that obtain d where "display_name r = Some d"
      using extract_name_display_name by blast
    with full show ?thesis by (simp add: field_or_def)
  qed
  have ent: "entry r =
       ascii ''**'' @ extract_name r @ ascii ''**'' @ newline
       @ pin @ ascii '' Address: '' @ full_address r @ newline
       @ telephone @ ascii '' Phone: Contact facility directly or search online directories''
       @ newline
       @ coordinates_line r @ ascii ''---''"
    by (simp add: entry_def)
  have coords: "(coordinates_line r \<noteq> [])
      = (\<exists>a b. lat r = Some a \<and> lon r = Some b \<and> a \<noteq> [] \<and> b \<noteq> [])"
    by (auto simp: coordinates_line_cases split: option.splits)
  from address_parts_preferred [of r] claimed full preferred_parts_unbound [of r] fallback ent
    coordinates_line_cases [of r] coords
  show ?thesis by blast
qed

theorem entry_address_by_preference_witness:
  "full_address calm_clinic = ascii ''12 MG Road, Pune, Maharashtra, 411001''
   \<and> address_parts calm_clinic = claimed_parts calm_clinic
   \<and> full_address calm_clinic_again = ascii ''Calm Clinic, Baner, Pune''
   \<and> coordinates_line calm_clinic = world_map @ ascii '' Coordinates: 18.52, 73.85'' @ newline
   \<and> coordinates_line calm_clinic_again = []"
proof -
  have p1: "preferred_parts calm_clinic
      = [ascii ''12 MG Road'', ascii ''Pune'', ascii ''Maharashtra'', ascii ''411001'']"
    by (simp add: preferred_parts_def calm_clinic_def field_or_def street_def locality_def
        nonempty_field_def first_bound_def List.map_filter_def ascii_def)
  have h1: "list_all (\<lambda>k. map_of (field_or (address calm_clinic) []) k \<noteq> Some [])
              [''city'', ''town'']"
    by (simp add: calm_clinic_def field_or_def ascii_def)
  have h2: "list_all (\<lambda>k. map_of (field_or (address calm_clinic_again) []) k = None) address_keys"
    by (simp add: calm_clinic_again_def field_or_def address_keys_def)
  have n2: "extract_name calm_clinic_again \<noteq> []"
    by (simp add: extract_name_calm_clinic_again ascii_def)
  from entry_address_by_preference [of calm_clinic] p1
  have a: "full_address calm_clinic = ascii ''12 MG Road, Pune, Maharashtra, 411001''"
    by (simp add: ascii_def)
  from entry_address_by_preference [of calm_clinic] h1
  have a': "address_parts calm_clinic = claimed_parts calm_clinic"
    by blast
  from entry_address_by_preference [of calm_clinic_again] h2 n2
  have "\<exists>d. display_name calm_clinic_again = Some d \<and> full_address calm_clinic_again = d"
    by blast
  then have b: "full_address calm_clinic_again = ascii ''Calm Clinic, Baner, Pune''"
    by (auto simp: calm_clinic_again_def)
  from entry_address_by_preference [of calm_clinic]
  have c: "coordinates_line calm_clinic = world_map @ ascii '' Coordinates: 18.52, 73.85'' @ newline"
    by (simp add: calm_clinic_def ascii_def)
  from entry_address_by_preference [of calm_clinic_again]
  have d: "coordinates_line calm_clinic_again = []"
    by (simp add: calm_clinic_again_def)
  from a a' b c d show ?thesis by blast
qed

end
